theory Spec2Isabelle
  imports Main
begin

section \<open>JavaScript values used by the gateway\<close>

text \<open>
  Strings are lists of characters. An optional property (\<^verbatim>\<open>x?: string\<close>) is a
  \<^typ>\<open>string option\<close>, \<^term>\<open>None\<close> standing for \<^verbatim>\<open>undefined\<close>. JavaScript
  tests such a value for truthiness: \<^verbatim>\<open>undefined\<close> and the empty string are falsy,
  every other string is truthy.
\<close>

definition truthy :: "string option \<Rightarrow> bool" where
  "truthy v = (case v of None \<Rightarrow> False | Some s \<Rightarrow> s \<noteq> [])"

text \<open>\<^verbatim>\<open>a || b\<close> on optional strings: the left operand when truthy, else the right.\<close>

definition or_else :: "string option \<Rightarrow> string option \<Rightarrow> string option" where
  "or_else a b = (if truthy a then a else b)"

text \<open>\<^verbatim>\<open>a || "literal"\<close>: the result is always a string.\<close>

definition or_default :: "string option \<Rightarrow> string \<Rightarrow> string" where
  "or_default a d = (case a of None \<Rightarrow> d | Some s \<Rightarrow> if s = [] then d else s)"

text \<open>\<^verbatim>\<open>if (v) { params.push(f(v)) }\<close>: the pushed elements.\<close>

definition when_truthy :: "string option \<Rightarrow> (string \<Rightarrow> string) \<Rightarrow> string list" where
  "when_truthy v f = (case v of None \<Rightarrow> [] | Some s \<Rightarrow> if s = [] then [] else [f s])"

text \<open>\<^verbatim>\<open>Array.prototype.join\<close>.\<close>

fun join :: "string \<Rightarrow> string list \<Rightarrow> string" where
  "join sep [] = []"
| "join sep [x] = x"
| "join sep (x # y # ys) = x @ sep @ join sep (y # ys)"

text \<open>\<^verbatim>\<open>String.prototype.toLowerCase\<close>, on the ASCII letters that header names use.\<close>

definition lower_char :: "char \<Rightarrow> char" where
  "lower_char c =
     (let n = (of_char c :: nat) in if 65 \<le> n \<and> n \<le> 90 then char_of (n + 32) else c)"

definition toLowerCase :: "string \<Rightarrow> string" where
  "toLowerCase s = map lower_char s"

subsection \<open>JSON values and \<^verbatim>\<open>JSON.stringify\<close>\<close>

text \<open>
  The part of JSON the gateway builds: \<^verbatim>\<open>null\<close>, non-negative integer literals,
  strings and objects with their properties in insertion order.
\<close>

datatype json = JNull | JNumber nat | JString string | JObject "(string \<times> json) list"

definition digit_char :: "nat \<Rightarrow> char" where
  "digit_char n = (if n < 10 then char_of (48 + n) else char_of (87 + n))"

function show_nat :: "nat \<Rightarrow> string" where
  "show_nat n = (if n < 10 then [digit_char n] else show_nat (n div 10) @ [digit_char (n mod 10)])"
  by pat_completeness auto
termination
  by (relation "measure id") auto

declare show_nat.simps [simp del]

text \<open>
  \<^verbatim>\<open>QuoteJSONString\<close> of ECMA-262: the double quote, the backslash and the control
  characters below U+0020 are escaped, every other character stands for itself. (A
  \<^typ>\<open>char\<close> is a code unit below 256, so the lone surrogates that the standard also
  escapes do not occur.)
\<close>

definition quote_json_char :: "char \<Rightarrow> string" where
  "quote_json_char c =
     (let n = (of_char c :: nat) in
      if n = 8 then [CHR 0x5C, CHR ''b'']
      else if n = 9 then [CHR 0x5C, CHR ''t'']
      else if n = 10 then [CHR 0x5C, CHR ''n'']
      else if n = 12 then [CHR 0x5C, CHR ''f'']
      else if n = 13 then [CHR 0x5C, CHR ''r'']
      else if n = 34 then [CHR 0x5C, CHR 0x22]
      else if n = 92 then [CHR 0x5C, CHR 0x5C]
      else if n < 32 then
        [CHR 0x5C, CHR ''u'', CHR ''0'', CHR ''0'', digit_char (n div 16), digit_char (n mod 16)]
      else [c])"

definition QuoteJSONString :: "string \<Rightarrow> string" where
  "QuoteJSONString s = [CHR 0x22] @ concat (map quote_json_char s) @ [CHR 0x22]"

text \<open>
  Reading one character back from the front of an escaped string, the way a JSON parser
  does; it is used to show that \<^verbatim>\<open>QuoteJSONString\<close> loses nothing.
\<close>

definition hex_val :: "char \<Rightarrow> nat" where
  "hex_val c = (let n = (of_char c :: nat) in if n < 58 then n - 48 else n - 87)"

fun unquote_json_char :: "string \<Rightarrow> (char \<times> string) option" where
  "unquote_json_char [] = None"
| "unquote_json_char (x # xs) =
     (if x \<noteq> CHR 0x5C then Some (x, xs)
      else (case xs of
              [] \<Rightarrow> None
            | t # ys \<Rightarrow>
                if t = CHR ''b'' then Some (CHR 0x08, ys)
                else if t = CHR ''t'' then Some (CHR 0x09, ys)
                else if t = CHR ''n'' then Some (CHR 0x0A, ys)
                else if t = CHR ''f'' then Some (CHR 0x0C, ys)
                else if t = CHR ''r'' then Some (CHR 0x0D, ys)
                else if t = CHR ''u'' then
                  (case ys of
                     _ # _ # h # l # zs \<Rightarrow> Some (char_of (hex_val h * 16 + hex_val l), zs)
                   | _ \<Rightarrow> None)
                else Some (t, ys)))"

fun JSON_stringify :: "json \<Rightarrow> string" where
  "JSON_stringify JNull = ''null''"
| "JSON_stringify (JNumber n) = show_nat n"
| "JSON_stringify (JString s) = QuoteJSONString s"
| "JSON_stringify (JObject kvs) =
     ''{'' @ join '','' (map (\<lambda>kv. QuoteJSONString (fst kv) @ '':'' @ JSON_stringify (snd kv)) kvs)
       @ ''}''"

section \<open>authentication.ts\<close>

text \<open>
  The per-call options of \<^verbatim>\<open>getUnauthorizedResponse\<close> and the static OAuth
  descriptor share four optional fields; the descriptor adds \<^verbatim>\<open>protectedResource\<close>
  and \<^verbatim>\<open>realm\<close>.
\<close>

record challenge_options =
  error :: "string option"
  error_description :: "string option"
  error_uri :: "string option"
  scope :: "string option"

record protected_resource =
  resource :: "string option"

record oauth_config = challenge_options +
  protectedResource :: "protected_resource option"
  realm :: "string option"

record AuthConfig =
  apiKey :: "string option"
  oauth :: "oauth_config option"

text \<open>
  The \<^verbatim>\<open>headers\<close> of Node's \<^verbatim>\<open>IncomingMessage\<close>: names are lower-cased by the
  http module, a value is a string or, for a repeated header, an array of strings. The
  request's \<^verbatim>\<open>method\<close> is the field \<open>httpMethod\<close>; like \<^verbatim>\<open>url\<close> it may be
  \<^verbatim>\<open>undefined\<close>.
\<close>

datatype header_value = Single string | Multiple "string list"

record IncomingMessage =
  httpMethod :: "string option"
  url :: "string option"
  headers :: "string \<rightharpoonup> header_value"

text \<open>
  The result of \<^verbatim>\<open>getUnauthorizedResponse\<close>, its \<^verbatim>\<open>headers\<close> being the field
  \<open>response_headers\<close>.
\<close>

record unauthorized_response =
  body :: string
  response_headers :: "string \<rightharpoonup> string"

definition default_message :: string where
  "default_message = ''Unauthorized: Invalid or missing API key''"

text \<open>\<^verbatim>\<open>options?.f\<close> for an optional \<^verbatim>\<open>options\<close> argument.\<close>

definition opt_field ::
  "('a challenge_options_scheme \<Rightarrow> string option) \<Rightarrow> 'a challenge_options_scheme option
     \<Rightarrow> string option" where
  "opt_field f options = (case options of None \<Rightarrow> None | Some opts \<Rightarrow> f opts)"

text \<open>\<^verbatim>\<open>error_description.replace(/"/g, '\\"')\<close>.\<close>

definition escape_quotes :: "string \<Rightarrow> string" where
  "escape_quotes s = concat (map (\<lambda>c. if c = CHR 0x22 then [CHR 0x5C, CHR 0x22] else [c]) s)"

text \<open>
  The parameter list built inside \<^verbatim>\<open>if (this.config.oauth)\<close>, in the order of the
  \<^verbatim>\<open>params.push\<close> calls.
\<close>

definition oauth_params :: "oauth_config \<Rightarrow> challenge_options option \<Rightarrow> string list" where
  \<open>oauth_params oa options =
     (let p1 = when_truthy (realm oa) (\<lambda>r. ''realm="'' @ r @ ''"'');
          p2 = when_truthy
                 (case protectedResource oa of None \<Rightarrow> None | Some pr \<Rightarrow> resource pr)
                 (\<lambda>r. ''resource_metadata="'' @ r @ ''/.well-known/oauth-protected-resource"'');
          err = or_default (or_else (opt_field error options) (error oa)) ''invalid_token'';
          p3 = [''error="'' @ err @ ''"''];
          descr = or_default (or_else (opt_field error_description options) (error_description oa))
                    default_message;
          escaped = escape_quotes descr;
          p4 = [''error_description="'' @ escaped @ ''"''];
          uri = or_else (opt_field error_uri options) (error_uri oa);
          p5 = when_truthy uri (\<lambda>u. ''error_uri="'' @ u @ ''"'');
          sc = or_else (opt_field scope options) (scope oa);
          p6 = when_truthy sc (\<lambda>v. ''scope="'' @ v @ ''"'')
      in p1 @ p2 @ p3 @ p4 @ p5 @ p6)\<close>

text \<open>The JSON-RPC error envelope passed to \<^verbatim>\<open>JSON.stringify\<close>.\<close>

definition error_envelope :: "string \<Rightarrow> json" where
  "error_envelope message =
     JObject [(''error'', JObject [(''code'', JNumber 401), (''message'', JString message)]),
              (''id'', JNull),
              (''jsonrpc'', JString ''2.0'')]"

definition getUnauthorizedResponse ::
  "AuthConfig \<Rightarrow> challenge_options option \<Rightarrow> unauthorized_response" where
  "getUnauthorizedResponse config options =
     (let hdrs0 = [''Content-Type'' \<mapsto> ''application/json''];
          hdrs =
            (case oauth config of
               None \<Rightarrow> hdrs0
             | Some oa \<Rightarrow>
                 (let params = oauth_params oa options in
                  if length params > 0
                  then hdrs0(''WWW-Authenticate'' \<mapsto> ''Bearer '' @ join '', '' params)
                  else hdrs0))
      in \<lparr> body = JSON_stringify (error_envelope
                 (or_default (opt_field error_description options) default_message)),
           response_headers = hdrs \<rparr>)"

definition validateRequest :: "AuthConfig \<Rightarrow> IncomingMessage \<Rightarrow> bool" where
  "validateRequest config req =
     (case apiKey config of
        None \<Rightarrow> True
      | Some key \<Rightarrow>
          if key = [] then True
          else (case headers req ''x-api-key'' of
                  None \<Rightarrow> False
                | Some (Multiple vs) \<Rightarrow> False
                | Some (Single v) \<Rightarrow> if v = [] then False else v = key))"

text \<open>
  \<^verbatim>\<open>createMockRequest\<close> of authentication.test.ts, which stands for what the http
  module does with the names of incoming headers: each entry of the record is stored
  under its lower-cased name.
\<close>

definition createMockRequest :: "(string \<times> string) list \<Rightarrow> IncomingMessage" where
  "createMockRequest entries =
     \<lparr> httpMethod = None, url = None,
       headers = fold (\<lambda>kv m. m(toLowerCase (fst kv) \<mapsto> Single (snd kv))) entries Map.empty \<rparr>"

section \<open>MCPProxy.ts\<close>

subsection \<open>Functions as values\<close>

text \<open>
  A JavaScript function value over an explicit state \<^typ>\<open>'w\<close> of everything outside
  the gateway (sockets, the SDK's objects, what the callbacks record): called with an
  argument it either throws, or (for an \<^verbatim>\<open>async\<close> function) returns a promise that
  rejects, which is \<^term>\<open>Inl\<close> of the error, or it returns, or its promise fulfils,
  with a result, and it leaves a new state. The moment at which a promise settles is not
  modelled.
\<close>

datatype Error = Error string

type_synonym ('a, 'r, 'w) js_fun = "'a \<Rightarrow> 'w \<Rightarrow> (Error + 'r) \<times> 'w"

type_synonym JSONRPCMessage = json

subsection \<open>tapTransport\<close>

datatype TransportEvent =
    TE_close
  | TE_onclose
  | TE_onerror Error
  | TE_onmessage JSONRPCMessage
  | TE_send JSONRPCMessage
  | TE_start

text \<open>
  The SDK's \<^verbatim>\<open>Transport\<close> interface: three methods and three optional hooks. A
  result is \<^term>\<open>None\<close> for \<^verbatim>\<open>undefined\<close>.
\<close>

record ('r, 'w) Transport =
  close :: "(unit, 'r option, 'w) js_fun"
  onclose :: "(unit, 'r option, 'w) js_fun option"
  onerror :: "(Error, 'r option, 'w) js_fun option"
  onmessage :: "(JSONRPCMessage, 'r option, 'w) js_fun option"
  send :: "(JSONRPCMessage, 'r option, 'w) js_fun"
  start :: "(unit, 'r option, 'w) js_fun"

text \<open>Objects live in a store and are passed by reference.\<close>

type_synonym ref = nat

type_synonym ('r, 'w) store = "ref \<Rightarrow> ('r, 'w) Transport"

text \<open>
  The closure that \<^verbatim>\<open>tapTransport\<close> assigns to each member,
  \<^verbatim>\<open>async (x) => { eventHandler({type, x}); return original?.(x); }\<close>:
  an exception of the handler leaves the \<^verbatim>\<open>async\<close> function before the original
  is called.
\<close>

definition tap ::
  "(TransportEvent, unit, 'w) js_fun \<Rightarrow> ('a \<Rightarrow> TransportEvent)
     \<Rightarrow> ('a, 'r option, 'w) js_fun option \<Rightarrow> ('a, 'r option, 'w) js_fun" where
  "tap eventHandler event original =
     (\<lambda>x w. case eventHandler (event x) w of
          (Inl e, w') \<Rightarrow> (Inl e, w')
        | (Inr _, w') \<Rightarrow> (case original of None \<Rightarrow> (Inr None, w') | Some f \<Rightarrow> f x w'))"

text \<open>
  \<^verbatim>\<open>tapTransport\<close> reads the six members of the object behind \<^verbatim>\<open>transport\<close>
  (\<^verbatim>\<open>bind\<close> fixes their receiver, which the function values of this model do not
  take), assigns the six closures to the same object and returns the reference it was
  given.
\<close>

definition tapTransport ::
  "ref \<Rightarrow> (TransportEvent, unit, 'w) js_fun \<Rightarrow> ('r, 'w) store \<Rightarrow> ref \<times> ('r, 'w) store" where
  "tapTransport transport eventHandler st =
     (let originalClose = Some (close (st transport));
          originalOnClose = onclose (st transport);
          originalOnError = onerror (st transport);
          originalOnMessage = onmessage (st transport);
          originalSend = Some (send (st transport));
          originalStart = Some (start (st transport));
          st1 = st(transport := (st transport)
                  \<lparr> close := tap eventHandler (\<lambda>_. TE_close) originalClose \<rparr>);
          st2 = st1(transport := (st1 transport)
                  \<lparr> onclose := Some (tap eventHandler (\<lambda>_. TE_onclose) originalOnClose) \<rparr>);
          st3 = st2(transport := (st2 transport)
                  \<lparr> onerror := Some (tap eventHandler TE_onerror originalOnError) \<rparr>);
          st4 = st3(transport := (st3 transport)
                  \<lparr> onmessage := Some (tap eventHandler TE_onmessage originalOnMessage) \<rparr>);
          st5 = st4(transport := (st4 transport)
                  \<lparr> send := tap eventHandler TE_send originalSend \<rparr>);
          st6 = st5(transport := (st5 transport)
                  \<lparr> start := tap eventHandler (\<lambda>_. TE_start) originalStart \<rparr>)
      in (transport, st6))"

text \<open>
  The six ways a transport is used: its owner calls a method, or the transport itself
  calls one of its hooks, \<^verbatim>\<open>this.onmessage?.(message)\<close>, which does nothing when the
  hook is not set.
\<close>

datatype transport_call =
    Call_close
  | Call_onclose
  | Call_onerror Error
  | Call_onmessage JSONRPCMessage
  | Call_send JSONRPCMessage
  | Call_start

fun invoke :: "('r, 'w) Transport \<Rightarrow> transport_call \<Rightarrow> 'w \<Rightarrow> (Error + 'r option) \<times> 'w" where
  "invoke t Call_close w = close t () w"
| "invoke t Call_onclose w = (case onclose t of None \<Rightarrow> (Inr None, w) | Some f \<Rightarrow> f () w)"
| "invoke t (Call_onerror e) w = (case onerror t of None \<Rightarrow> (Inr None, w) | Some f \<Rightarrow> f e w)"
| "invoke t (Call_onmessage m) w = (case onmessage t of None \<Rightarrow> (Inr None, w) | Some f \<Rightarrow> f m w)"
| "invoke t (Call_send m) w = send t m w"
| "invoke t Call_start w = start t () w"

text \<open>The event that the tap publishes for a call.\<close>

fun event_of :: "transport_call \<Rightarrow> TransportEvent" where
  "event_of Call_close = TE_close"
| "event_of Call_onclose = TE_onclose"
| "event_of (Call_onerror e) = TE_onerror e"
| "event_of (Call_onmessage m) = TE_onmessage m"
| "event_of (Call_send m) = TE_send m"
| "event_of Call_start = TE_start"

text \<open>A sequence of calls, one after the other, with the outcome of each.\<close>

fun invoke_all ::
  "('r, 'w) Transport \<Rightarrow> transport_call list \<Rightarrow> 'w \<Rightarrow> (Error + 'r option) list \<times> 'w" where
  "invoke_all t [] w = ([], w)"
| "invoke_all t (c # cs) w =
     (case invoke t c w of (r, w') \<Rightarrow>
        (case invoke_all t cs w' of (rs, w'') \<Rightarrow> (r # rs, w'')))"

text \<open>
  A transport and two event handlers for concrete runs. The world is the list of what
  has happened: the calls that reached the transport's own functions and the events
  that were published. One handler records the event, the other throws.
\<close>

datatype observation = Delegated transport_call | Published TransportEvent

definition recording_transport :: "(unit, observation list) Transport" where
  "recording_transport =
     \<lparr> close = (\<lambda>_ w. (Inr None, w @ [Delegated Call_close])),
       onclose = Some (\<lambda>_ w. (Inr None, w @ [Delegated Call_onclose])),
       onerror = Some (\<lambda>e w. (Inr None, w @ [Delegated (Call_onerror e)])),
       onmessage = Some (\<lambda>m w. (Inr None, w @ [Delegated (Call_onmessage m)])),
       send = (\<lambda>m w. (Inr None, w @ [Delegated (Call_send m)])),
       start = (\<lambda>_ w. (Inr None, w @ [Delegated Call_start])) \<rparr>"

definition recording_handler :: "(TransportEvent, unit, observation list) js_fun" where
  "recording_handler ev w = (Inr (), w @ [Published ev])"

definition failing_handler :: "(TransportEvent, unit, observation list) js_fun" where
  "failing_handler ev w = (Inl (Error ''handler failed''), w)"

text \<open>The calls that reached the transport's own functions, in order.\<close>

fun delegated :: "observation list \<Rightarrow> transport_call list" where
  "delegated [] = []"
| "delegated (Delegated c # os) = c # delegated os"
| "delegated (Published ev # os) = delegated os"

subsection \<open>proxyServer\<close>

text \<open>The request and notification schemas of the SDK that \<^verbatim>\<open>proxyServer\<close> names.\<close>

datatype schema =
    LoggingMessageNotificationSchema
  | GetPromptRequestSchema
  | ListPromptsRequestSchema
  | ListResourcesRequestSchema
  | ListResourceTemplatesRequestSchema
  | ReadResourceRequestSchema
  | CallToolRequestSchema
  | ListToolsRequestSchema
  | CompleteRequestSchema

text \<open>
  A capability of \<^verbatim>\<open>ServerCapabilities\<close> is an object when present, and an object
  is truthy whatever it holds. \<^verbatim>\<open>proxyServer\<close> reads four of the capabilities; the
  SDK's type also has \<^verbatim>\<open>completions\<close>.
\<close>

type_synonym object = "(string \<times> json) list"

record ServerCapabilities =
  logging :: "object option"
  completions :: "object option"
  prompts :: "object option"
  resources :: "object option"
  tools :: "object option"

text \<open>\<^verbatim>\<open>serverCapabilities?.capability\<close> as a condition.\<close>

definition has_capability ::
  "(ServerCapabilities \<Rightarrow> object option) \<Rightarrow> ServerCapabilities option \<Rightarrow> bool" where
  "has_capability capability serverCapabilities =
     (case serverCapabilities of None \<Rightarrow> False | Some caps \<Rightarrow> capability caps \<noteq> None)"

text \<open>The methods of the upstream \<^verbatim>\<open>Client\<close> that the handlers call.\<close>

record ('r, 'w) Client =
  notification :: "(json, 'r, 'w) js_fun"
  getPrompt :: "(json option, 'r, 'w) js_fun"
  listPrompts :: "(json option, 'r, 'w) js_fun"
  listResources :: "(json option, 'r, 'w) js_fun"
  listResourceTemplates :: "(json option, 'r, 'w) js_fun"
  readResource :: "(json option, 'r, 'w) js_fun"
  callTool :: "(json option, 'r, 'w) js_fun"
  listTools :: "(json option, 'r, 'w) js_fun"
  complete :: "(json option, 'r, 'w) js_fun"

text \<open>
  The downstream \<^verbatim>\<open>Server\<close> keeps one handler per schema. Before it stores a
  request handler, the SDK's \<^verbatim>\<open>setRequestHandler\<close> checks that the server was
  constructed with the capability that the method needs
  (\<^verbatim>\<open>assertRequestHandlerCapability\<close>) and throws when it was not. The SDK is not
  part of this repository: what the check answers on a server, \<^term>\<open>None\<close> when it
  passes and the error when it throws, is a field of the server.
  \<^verbatim>\<open>setNotificationHandler\<close> stores the handler without a check.
\<close>

record ('r, 'w) Server =
  requestHandlers :: "schema \<rightharpoonup> (json, 'r, 'w) js_fun"
  notificationHandlers :: "schema \<rightharpoonup> (json, 'r, 'w) js_fun"
  assertRequestHandlerCapability :: "schema \<Rightarrow> Error option"

definition setRequestHandler ::
  "schema \<Rightarrow> (json, 'r, 'w) js_fun \<Rightarrow> ('r, 'w) Server \<Rightarrow> Error + ('r, 'w) Server" where
  "setRequestHandler sch handler server =
     (case assertRequestHandlerCapability server sch of
        Some e \<Rightarrow> Inl e
      | None \<Rightarrow> Inr (server\<lparr> requestHandlers := (requestHandlers server)(sch \<mapsto> handler) \<rparr>))"

definition setNotificationHandler ::
  "schema \<Rightarrow> (json, 'r, 'w) js_fun \<Rightarrow> ('r, 'w) Server \<Rightarrow> ('r, 'w) Server" where
  "setNotificationHandler sch handler server =
     server\<lparr> notificationHandlers := (notificationHandlers server)(sch \<mapsto> handler) \<rparr>"

text \<open>\<^verbatim>\<open>args.params\<close>: the property of an object, \<^verbatim>\<open>undefined\<close> when it has none.\<close>

definition params :: "json \<Rightarrow> json option" where
  "params args = (case args of JObject kvs \<Rightarrow> map_of kvs ''params'' | _ \<Rightarrow> None)"

text \<open>
  One more statement of the \<^verbatim>\<open>async\<close> function. Its state is the error that has
  rejected the function, if any, and the server as the statements so far have left it:
  after an exception nothing more is executed.
\<close>

definition and_then ::
  "Error option \<times> ('r, 'w) Server \<Rightarrow> (('r, 'w) Server \<Rightarrow> Error + ('r, 'w) Server)
     \<Rightarrow> Error option \<times> ('r, 'w) Server" where
  "and_then r statement =
     (case r of
        (Some e, server) \<Rightarrow> (Some e, server)
      | (None, server) \<Rightarrow>
          (case statement server of
             Inl e \<Rightarrow> (Some e, server)
           | Inr server' \<Rightarrow> (None, server')))"

text \<open>
  \<^verbatim>\<open>proxyServer\<close> mutates \<^verbatim>\<open>server\<close> and returns a promise of nothing: the result
  is the error of the rejection, \<^term>\<open>None\<close> when the promise fulfils, and the server
  as it is left.
\<close>

definition proxyServer ::
  "('r, 'w) Server \<Rightarrow> ('r, 'w) Client \<Rightarrow> ServerCapabilities option
     \<Rightarrow> Error option \<times> ('r, 'w) Server" where
  "proxyServer server client serverCapabilities =
     (let r1 = (None,
                if has_capability logging serverCapabilities
                then setNotificationHandler LoggingMessageNotificationSchema
                       (\<lambda>args. notification client args) server
                else server);
          r2 = (if has_capability prompts serverCapabilities
                then and_then
                       (and_then r1
                          (setRequestHandler GetPromptRequestSchema
                             (\<lambda>args. getPrompt client (params args))))
                       (setRequestHandler ListPromptsRequestSchema
                          (\<lambda>args. listPrompts client (params args)))
                else r1);
          r3 = (if has_capability resources serverCapabilities
                then and_then
                       (and_then
                          (and_then r2
                             (setRequestHandler ListResourcesRequestSchema
                                (\<lambda>args. listResources client (params args))))
                          (setRequestHandler ListResourceTemplatesRequestSchema
                             (\<lambda>args. listResourceTemplates client (params args))))
                       (setRequestHandler ReadResourceRequestSchema
                          (\<lambda>args. readResource client (params args)))
                else r2);
          r4 = (if has_capability tools serverCapabilities
                then and_then
                       (and_then r3
                          (setRequestHandler CallToolRequestSchema
                             (\<lambda>args. callTool client (params args))))
                       (setRequestHandler ListToolsRequestSchema
                          (\<lambda>args. listTools client (params args)))
                else r3)
      in and_then r4
           (setRequestHandler CompleteRequestSchema (\<lambda>args. complete client (params args))))"

text \<open>
  For the statements about \<^verbatim>\<open>proxyServer\<close>: the request schemas for which it calls
  \<^verbatim>\<open>setRequestHandler\<close> under a snapshot, in the order of the calls, the handler it
  passes for each schema, and the calls made one after the other.
\<close>

definition request_schemas :: "ServerCapabilities option \<Rightarrow> schema list" where
  "request_schemas serverCapabilities =
     (if has_capability prompts serverCapabilities
      then [GetPromptRequestSchema, ListPromptsRequestSchema] else [])
     @ (if has_capability resources serverCapabilities
        then [ListResourcesRequestSchema, ListResourceTemplatesRequestSchema,
              ReadResourceRequestSchema]
        else [])
     @ (if has_capability tools serverCapabilities
        then [CallToolRequestSchema, ListToolsRequestSchema] else [])
     @ [CompleteRequestSchema]"

fun forwarding :: "('r, 'w) Client \<Rightarrow> schema \<Rightarrow> (json, 'r, 'w) js_fun" where
  "forwarding client LoggingMessageNotificationSchema = (\<lambda>args. notification client args)"
| "forwarding client GetPromptRequestSchema = (\<lambda>args. getPrompt client (params args))"
| "forwarding client ListPromptsRequestSchema = (\<lambda>args. listPrompts client (params args))"
| "forwarding client ListResourcesRequestSchema = (\<lambda>args. listResources client (params args))"
| "forwarding client ListResourceTemplatesRequestSchema =
     (\<lambda>args. listResourceTemplates client (params args))"
| "forwarding client ReadResourceRequestSchema = (\<lambda>args. readResource client (params args))"
| "forwarding client CallToolRequestSchema = (\<lambda>args. callTool client (params args))"
| "forwarding client ListToolsRequestSchema = (\<lambda>args. listTools client (params args))"
| "forwarding client CompleteRequestSchema = (\<lambda>args. complete client (params args))"

fun register_all ::
  "('r, 'w) Client \<Rightarrow> schema list \<Rightarrow> Error option \<times> ('r, 'w) Server
     \<Rightarrow> Error option \<times> ('r, 'w) Server" where
  "register_all client [] r = r"
| "register_all client (sch # schs) r =
     register_all client schs (and_then r (setRequestHandler sch (forwarding client sch)))"

text \<open>
  For concrete runs: the SDK's check for a server constructed with the given
  capabilities, with the error it throws, and such a server before any handler is set,
  as \<^verbatim>\<open>new Server(info, {capabilities})\<close> in bin/mcp-proxy.ts makes it.
\<close>

fun method_name :: "schema \<Rightarrow> string" where
  "method_name LoggingMessageNotificationSchema = ''notifications/message''"
| "method_name GetPromptRequestSchema = ''prompts/get''"
| "method_name ListPromptsRequestSchema = ''prompts/list''"
| "method_name ListResourcesRequestSchema = ''resources/list''"
| "method_name ListResourceTemplatesRequestSchema = ''resources/templates/list''"
| "method_name ReadResourceRequestSchema = ''resources/read''"
| "method_name CallToolRequestSchema = ''tools/call''"
| "method_name ListToolsRequestSchema = ''tools/list''"
| "method_name CompleteRequestSchema = ''completion/complete''"

definition requires ::
  "object option \<Rightarrow> string \<Rightarrow> schema \<Rightarrow> Error option" where
  "requires declared name sch =
     (case declared of
        Some _ \<Rightarrow> None
      | None \<Rightarrow> Some (Error (''Server does not support '' @ name
                  @ '' (required for '' @ method_name sch @ '')'')))"

fun sdk_check :: "ServerCapabilities \<Rightarrow> schema \<Rightarrow> Error option" where
  "sdk_check caps LoggingMessageNotificationSchema = None"
| "sdk_check caps GetPromptRequestSchema = requires (prompts caps) ''prompts'' GetPromptRequestSchema"
| "sdk_check caps ListPromptsRequestSchema =
     requires (prompts caps) ''prompts'' ListPromptsRequestSchema"
| "sdk_check caps ListResourcesRequestSchema =
     requires (resources caps) ''resources'' ListResourcesRequestSchema"
| "sdk_check caps ListResourceTemplatesRequestSchema =
     requires (resources caps) ''resources'' ListResourceTemplatesRequestSchema"
| "sdk_check caps ReadResourceRequestSchema =
     requires (resources caps) ''resources'' ReadResourceRequestSchema"
| "sdk_check caps CallToolRequestSchema = requires (tools caps) ''tools'' CallToolRequestSchema"
| "sdk_check caps ListToolsRequestSchema = requires (tools caps) ''tools'' ListToolsRequestSchema"
| "sdk_check caps CompleteRequestSchema =
     requires (completions caps) ''completions'' CompleteRequestSchema"

definition new_Server :: "ServerCapabilities \<Rightarrow> ('r, 'w) Server" where
  "new_Server caps =
     \<lparr> requestHandlers = Map.empty, notificationHandlers = Map.empty,
       assertRequestHandlerCapability = sdk_check caps \<rparr>"

text \<open>A client whose methods record their name in the world.\<close>

definition recording_client :: "(unit, string list) Client" where
  "recording_client =
     \<lparr> notification = (\<lambda>a w. (Inr (), w @ [''notification''])),
       getPrompt = (\<lambda>a w. (Inr (), w @ [''getPrompt''])),
       listPrompts = (\<lambda>a w. (Inr (), w @ [''listPrompts''])),
       listResources = (\<lambda>a w. (Inr (), w @ [''listResources''])),
       listResourceTemplates = (\<lambda>a w. (Inr (), w @ [''listResourceTemplates''])),
       readResource = (\<lambda>a w. (Inr (), w @ [''readResource''])),
       callTool = (\<lambda>a w. (Inr (), w @ [''callTool''])),
       listTools = (\<lambda>a w. (Inr (), w @ [''listTools''])),
       complete = (\<lambda>a w. (Inr (), w @ [''complete''])) \<rparr>"

subsection \<open>startSSEServer\<close>

text \<open>
  The SDK's transport of one session, known to the gateway by its \<^verbatim>\<open>sessionId\<close>.
\<close>

record SSEServerTransport =
  sessionId :: string

text \<open>
  What the gateway does on a session's teardown, recorded in program order: the
  awaited \<^verbatim>\<open>server.close()\<close> with its outcome, the removal from
  \<^verbatim>\<open>activeTransports\<close>, the call of \<^verbatim>\<open>onClose\<close>.
\<close>

datatype 'srv step =
    Server_close_settled 'srv "Error + unit"
  | Session_deleted string
  | OnClose_called 'srv

text \<open>
  The state that \<^verbatim>\<open>startSSEServer\<close> closes over: the table of active
  transports, the world outside, and the record of teardown steps.
\<close>

record ('srv, 'w) gateway =
  activeTransports :: "string \<rightharpoonup> SSEServerTransport"
  world :: 'w
  steps :: "'srv step list"

text \<open>
  The \<^verbatim>\<open>ServerResponse\<close> of one request as the gateway writes it: the headers of
  \<^verbatim>\<open>setHeader\<close>, the status of \<^verbatim>\<open>writeHead\<close>, the body given to \<^verbatim>\<open>end\<close>,
  and the listeners registered with \<^verbatim>\<open>res.on("close", \<dots>)\<close>.
\<close>

record ('srv, 'w) ServerResponse =
  resHeaders :: "string \<rightharpoonup> string"
  statusCode :: "nat option"
  ended :: "string option"
  closeListeners :: "(('srv, 'w) gateway \<Rightarrow> ('srv, 'w) gateway) list"

text \<open>The arguments of \<^verbatim>\<open>startSSEServer\<close> that the request listener uses.\<close>

record ('srv, 'w) SSEServerOptions =
  endpoint :: string
  createServer :: "(unit, 'srv, 'w) js_fun"
  onConnect :: "('srv, unit, 'w) js_fun option"
  onClose :: "('srv, unit, 'w) js_fun option"

text \<open>
  What the listener calls outside this repository. \<^verbatim>\<open>URL_origin s\<close> is
  \<^verbatim>\<open>new URL(s).origin\<close> and \<^verbatim>\<open>URL_sessionId u\<close> is
  \<^verbatim>\<open>new URL(u, "https://example.com").searchParams.get("sessionId")\<close>, each
  \<^term>\<open>Inl\<close> when the constructor throws; the rest are the SDK's transport and the
  methods of the \<^verbatim>\<open>ServerLike\<close> endpoint.
\<close>

record ('srv, 'w) collaborators =
  URL_origin :: "string \<Rightarrow> Error + string"
  URL_sessionId :: "string \<Rightarrow> Error + string option"
  new_SSEServerTransport :: "'w \<Rightarrow> SSEServerTransport \<times> 'w"
  server_connect :: "'srv \<Rightarrow> SSEServerTransport \<Rightarrow> 'w \<Rightarrow> (Error + unit) \<times> 'w"
  server_close :: "'srv \<Rightarrow> 'w \<Rightarrow> (Error + unit) \<times> 'w"
  transport_send :: "SSEServerTransport \<Rightarrow> JSONRPCMessage \<Rightarrow> 'w \<Rightarrow> (Error + unit) \<times> 'w"
  handlePostMessage :: "SSEServerTransport \<Rightarrow> IncomingMessage \<Rightarrow> 'w \<Rightarrow> (Error + unit) \<times> 'w"
  console_error :: "string \<Rightarrow> Error \<Rightarrow> 'w \<Rightarrow> 'w"

text \<open>
  A header value as a condition and as the string that \<^verbatim>\<open>new URL\<close> makes of it:
  an empty string is falsy, an array is truthy and is joined with commas.
\<close>

fun header_truthy :: "header_value \<Rightarrow> bool" where
  "header_truthy (Single s) = (s \<noteq> [])"
| "header_truthy (Multiple vs) = True"

fun header_string :: "header_value \<Rightarrow> string" where
  "header_string (Single s) = s"
| "header_string (Multiple vs) = join '','' vs"

text \<open>The first statement of the listener: the CORS headers.\<close>

definition set_cors_headers ::
  "('srv, 'w) collaborators \<Rightarrow> IncomingMessage \<Rightarrow> ('srv, 'w) ServerResponse \<Rightarrow> 'w
     \<Rightarrow> ('srv, 'w) ServerResponse \<times> 'w" where
  "set_cors_headers env req res w =
     (case headers req ''origin'' of
        None \<Rightarrow> (res, w)
      | Some hv \<Rightarrow>
          if \<not> header_truthy hv then (res, w)
          else (case URL_origin env (header_string hv) of
                  Inl e \<Rightarrow> (res, console_error env ''Error parsing origin:'' e w)
                | Inr origin \<Rightarrow>
                    (res\<lparr> resHeaders := (resHeaders res)
                            (''Access-Control-Allow-Origin'' \<mapsto> origin,
                             ''Access-Control-Allow-Credentials'' \<mapsto> ''true'',
                             ''Access-Control-Allow-Methods'' \<mapsto> ''GET, POST, OPTIONS'',
                             ''Access-Control-Allow-Headers'' \<mapsto> ''*'') \<rparr>, w)))"

text \<open>\<^verbatim>\<open>res.writeHead(status).end(body)\<close>.\<close>

definition respond ::
  "nat \<Rightarrow> string \<Rightarrow> ('srv, 'w) ServerResponse \<Rightarrow> ('srv, 'w) ServerResponse" where
  "respond status text res = res\<lparr> statusCode := Some status, ended := Some text \<rparr>"

text \<open>The listener of the response's \<^verbatim>\<open>close\<close> event.\<close>

definition on_close ::
  "('srv, 'w) SSEServerOptions \<Rightarrow> ('srv, 'w) collaborators \<Rightarrow> 'srv \<Rightarrow> SSEServerTransport
     \<Rightarrow> ('srv, 'w) gateway \<Rightarrow> ('srv, 'w) gateway" where
  "on_close opts env server transport g =
     (case server_close env server (world g) of (r, w1) \<Rightarrow>
        (let w2 = (case r of Inl e \<Rightarrow> console_error env ''Error closing server:'' e w1
                           | Inr _ \<Rightarrow> w1);
             g1 = g\<lparr> world := w2, steps := steps g @ [Server_close_settled server r] \<rparr>;
             g2 = g1\<lparr> activeTransports := (activeTransports g1)(sessionId transport := None),
                      steps := steps g1 @ [Session_deleted (sessionId transport)] \<rparr>
         in (case onClose opts of
               None \<Rightarrow> g2
             | Some f \<Rightarrow> g2\<lparr> world := snd (f server (world g2)),
                             steps := steps g2 @ [OnClose_called server] \<rparr>)))"

text \<open>The notification sent when a session is established.\<close>

definition connection_message :: JSONRPCMessage where
  "connection_message =
     JObject [(''jsonrpc'', JString ''2.0''),
              (''method'', JString ''sse/connection''),
              (''params'', JObject [(''message'', JString ''SSE Connection established'')])]"

text \<open>
  \<^verbatim>\<open>GET\<close> on the endpoint. An awaited call that rejects ends the listener there,
  with what has been done so far.
\<close>

definition sse_connect ::
  "('srv, 'w) SSEServerOptions \<Rightarrow> ('srv, 'w) collaborators \<Rightarrow> ('srv, 'w) ServerResponse
     \<Rightarrow> ('srv, 'w) gateway \<Rightarrow> Error option \<times> ('srv, 'w) ServerResponse \<times> ('srv, 'w) gateway" where
  "sse_connect opts env res g =
     (case new_SSEServerTransport env (world g) of (transport, w0) \<Rightarrow>
      (case createServer opts () w0 of
         (Inl e, w1) \<Rightarrow> (Some e, res, g\<lparr> world := w1 \<rparr>)
       | (Inr server, w1) \<Rightarrow>
           (let g1 = g\<lparr> activeTransports :=
                         (activeTransports g)(sessionId transport \<mapsto> transport) \<rparr>
            in (case server_connect env server transport w1 of
                  (Inl e, w2) \<Rightarrow> (Some e, res, g1\<lparr> world := w2 \<rparr>)
                | (Inr _, w2) \<Rightarrow>
                    (case transport_send env transport connection_message w2 of
                       (Inl e, w3) \<Rightarrow> (Some e, res, g1\<lparr> world := w3 \<rparr>)
                     | (Inr _, w3) \<Rightarrow>
                         (case (case onConnect opts of None \<Rightarrow> (Inr (), w3)
                                                     | Some f \<Rightarrow> f server w3) of
                            (Inl e, w4) \<Rightarrow> (Some e, res, g1\<lparr> world := w4 \<rparr>)
                          | (Inr _, w4) \<Rightarrow>
                              (None,
                               res\<lparr> closeListeners := closeListeners res
                                       @ [on_close opts env server transport] \<rparr>,
                               g1\<lparr> world := w4 \<rparr>)))))))"

text \<open>\<^verbatim>\<open>POST\<close> on \<^verbatim>\<open>/messages\<close>.\<close>

definition post_message ::
  "('srv, 'w) collaborators \<Rightarrow> IncomingMessage \<Rightarrow> ('srv, 'w) ServerResponse
     \<Rightarrow> ('srv, 'w) gateway \<Rightarrow> Error option \<times> ('srv, 'w) ServerResponse \<times> ('srv, 'w) gateway" where
  "post_message env req res g =
     (case URL_sessionId env (case url req of None \<Rightarrow> ''undefined'' | Some u \<Rightarrow> u) of
        Inl e \<Rightarrow> (Some e, res, g)
      | Inr sid \<Rightarrow>
          (case (if truthy sid then sid else None) of
             None \<Rightarrow> (None, respond 400 ''No sessionId'' res, g)
           | Some session \<Rightarrow>
               (case activeTransports g session of
                  None \<Rightarrow> (None, respond 400 ''No active transport'' res, g)
                | Some activeTransport \<Rightarrow>
                    (case handlePostMessage env activeTransport req (world g) of
                       (Inl e, w') \<Rightarrow> (Some e, res, g\<lparr> world := w' \<rparr>)
                     | (Inr _, w') \<Rightarrow> (None, res, g\<lparr> world := w' \<rparr>)))))"

text \<open>\<^verbatim>\<open>req.url?.startsWith(prefix)\<close>.\<close>

definition url_startsWith :: "string option \<Rightarrow> string \<Rightarrow> bool" where
  "url_startsWith u p = (case u of None \<Rightarrow> False | Some s \<Rightarrow> take (length p) s = p)"

text \<open>
  The request listener of \<^verbatim>\<open>http.createServer\<close>. Its result is the error of a
  rejected listener if any, the response as written by the gateway, and the new state.
\<close>

definition requestListener ::
  "('srv, 'w) SSEServerOptions \<Rightarrow> ('srv, 'w) collaborators \<Rightarrow> IncomingMessage
     \<Rightarrow> ('srv, 'w) ServerResponse \<Rightarrow> ('srv, 'w) gateway
     \<Rightarrow> Error option \<times> ('srv, 'w) ServerResponse \<times> ('srv, 'w) gateway" where
  "requestListener opts env req res0 g0 =
     (case set_cors_headers env req res0 (world g0) of (res, w) \<Rightarrow>
        (let g = g0\<lparr> world := w \<rparr> in
         if httpMethod req = Some ''OPTIONS'' then (None, respond 204 [] res, g)
         else if httpMethod req = Some ''GET'' \<and> url req = Some ''/ping''
           then (None, respond 200 ''pong'' res, g)
         else if httpMethod req = Some ''GET'' \<and> url req = Some (endpoint opts)
           then sse_connect opts env res g
         else if httpMethod req = Some ''POST'' \<and> url_startsWith (url req) ''/messages''
           then post_message env req res g
         else (None, respond 404 [] res, g)))"

text \<open>The response stream closes: Node calls the listeners of \<^verbatim>\<open>close\<close> in turn.\<close>

definition emit_close :: "('srv, 'w) ServerResponse \<Rightarrow> ('srv, 'w) gateway \<Rightarrow> ('srv, 'w) gateway" where
  "emit_close res g = fold (\<lambda>listener. listener) (closeListeners res) g"

text \<open>A response on which nothing has been written yet.\<close>

definition new_response :: "('srv, 'w) ServerResponse" where
  "new_response = \<lparr> resHeaders = Map.empty, statusCode = None, ended = None, closeListeners = [] \<rparr>"

text \<open>
  Collaborators for concrete runs. Endpoints are numbers and the world is the list of
  what the collaborators were asked to do. The URL constructor is given on the inputs
  of the examples as Node evaluates them: a serialised origin is returned as it is, a
  URL in another spelling gives the origin in lower case without the default port and
  the path, and a string that is no URL makes the constructor throw.
\<close>

definition example_URL_origin :: "string \<Rightarrow> Error + string" where
  "example_URL_origin s =
     (if s = ''https://a.example'' then Inr ''https://a.example''
      else if s = ''https://A.EXAMPLE:443/path'' then Inr ''https://a.example''
      else Inl (Error ''Invalid URL''))"

definition example_env :: "(nat, string list) collaborators" where
  "example_env =
     \<lparr> URL_origin = example_URL_origin,
       URL_sessionId = (\<lambda>u. Inr None),
       new_SSEServerTransport = (\<lambda>w. (\<lparr> sessionId = ''session-1'' \<rparr>, w)),
       server_connect = (\<lambda>server transport w. (Inr (), w @ [''connect''])),
       server_close = (\<lambda>server w. (Inr (), w @ [''close''])),
       transport_send = (\<lambda>transport message w. (Inr (), w @ [''send''])),
       handlePostMessage = (\<lambda>transport req w. (Inr (), w @ [''handlePostMessage''])),
       console_error = (\<lambda>message e w. w @ [message]) \<rparr>"

text \<open>The same collaborators with an endpoint whose \<^verbatim>\<open>close\<close> rejects.\<close>

definition failing_close_env :: "(nat, string list) collaborators" where
  "failing_close_env =
     example_env\<lparr> server_close := (\<lambda>server w. (Inl (Error ''close failed''), w)) \<rparr>"

definition example_opts :: "(nat, string list) SSEServerOptions" where
  "example_opts =
     \<lparr> endpoint = ''/sse'',
       createServer = (\<lambda>_ w. (Inr 7, w @ [''createServer''])),
       onConnect = Some (\<lambda>server w. (Inr (), w @ [''onConnect''])),
       onClose = Some (\<lambda>server w. (Inr (), w @ [''onClose''])) \<rparr>"

definition example_gateway :: "(nat, string list) gateway" where
  "example_gateway = \<lparr> activeTransports = Map.empty, world = [], steps = [] \<rparr>"

text \<open>A request with one \<^verbatim>\<open>Origin\<close> header.\<close>

definition request_from :: "string \<Rightarrow> string \<Rightarrow> string \<Rightarrow> IncomingMessage" where
  "request_from m u origin =
     \<lparr> httpMethod = Some m, url = Some u, headers = [''origin'' \<mapsto> Single origin] \<rparr>"

section \<open>The event log\<close>

text \<open>
  Modelled from the spec: the event store (\<^verbatim>\<open>InMemoryEventStore\<close>, imported by
  bin/mcp-proxy.ts, its file not among the sources). Section 4.4: \<^verbatim>\<open>append\<close> assigns
  the next integer of the stream, starting at 1, stores the event and returns the
  integer; \<^verbatim>\<open>replay\<close> invokes \<^verbatim>\<open>deliver\<close> on the stored events of the stream whose
  identifier is greater than \<^verbatim>\<open>afterEventId\<close>, in ascending order of identifier, and on
  nothing for a stream it does not know.
\<close>

record StreamEvent =
  streamId :: string
  eventId :: nat
  payload :: JSONRPCMessage

type_synonym EventLog = "string \<rightharpoonup> StreamEvent list"

definition stream_events :: "EventLog \<Rightarrow> string \<Rightarrow> StreamEvent list" where
  "stream_events log sid = (case log sid of None \<Rightarrow> [] | Some evs \<Rightarrow> evs)"

definition next_eventId :: "StreamEvent list \<Rightarrow> nat" where
  "next_eventId evs = (if evs = [] then 1 else Suc (eventId (last evs)))"

definition EventLog_append :: "EventLog \<Rightarrow> string \<Rightarrow> JSONRPCMessage \<Rightarrow> nat \<times> EventLog" where
  "EventLog_append log sid message =
     (let evs = stream_events log sid;
          n = next_eventId evs
      in (n, log(sid \<mapsto> evs @ [\<lparr> streamId = sid, eventId = n, payload = message \<rparr>])))"

definition EventLog_replay ::
  "EventLog \<Rightarrow> string \<Rightarrow> nat \<Rightarrow> (StreamEvent \<Rightarrow> 's \<Rightarrow> 's) \<Rightarrow> 's \<Rightarrow> 's" where
  "EventLog_replay log sid afterEventId deliver st =
     (case log sid of
        None \<Rightarrow> st
      | Some evs \<Rightarrow>
          fold deliver (sort_key eventId (filter (\<lambda>ev. afterEventId < eventId ev) evs)) st)"

text \<open>The log after a sequence of appends to an empty log.\<close>

definition log_of :: "(string \<times> JSONRPCMessage) list \<Rightarrow> EventLog" where
  "log_of appends = fold (\<lambda>a log. snd (EventLog_append log (fst a) (snd a))) appends Map.empty"

section \<open>Properties of authentication.ts\<close>

subsection \<open>Escaped strings can be read back\<close>

lemma hex_val_digit_char: "k < 16 \<Longrightarrow> hex_val (digit_char k) = k"
  by (simp add: hex_val_def digit_char_def Let_def)

lemma char_eqI: "(of_char c :: nat) = n \<Longrightarrow> (of_char d :: nat) = n \<Longrightarrow> c = d"
  by auto

lemma of_char_known:
  "(of_char c :: nat) = 8 \<Longrightarrow> c = CHR 0x08"
  "(of_char c :: nat) = 9 \<Longrightarrow> c = CHR 0x09"
  "(of_char c :: nat) = 10 \<Longrightarrow> c = CHR 0x0A"
  "(of_char c :: nat) = 12 \<Longrightarrow> c = CHR 0x0C"
  "(of_char c :: nat) = 13 \<Longrightarrow> c = CHR 0x0D"
  "(of_char c :: nat) = 34 \<Longrightarrow> c = CHR 0x22"
  "(of_char c :: nat) = 92 \<Longrightarrow> c = CHR 0x5C"
  by (erule char_eqI, simp)+

lemma unquote_quote_json_char: "unquote_json_char (quote_json_char c @ r) = Some (c, r)"
proof -
  let ?n = "of_char c :: nat"
  consider "?n = 8" | "?n = 9" | "?n = 10" | "?n = 12" | "?n = 13" | "?n = 34" | "?n = 92"
    | "?n < 32" "?n \<noteq> 8" "?n \<noteq> 9" "?n \<noteq> 10" "?n \<noteq> 12" "?n \<noteq> 13"
    | "?n \<ge> 32" "?n \<noteq> 34" "?n \<noteq> 92"
    by linarith
  then show ?thesis
  proof cases
    case 8
    then have q: "quote_json_char c =
        [CHR 0x5C, CHR ''u'', CHR ''0'', CHR ''0'', digit_char (?n div 16), digit_char (?n mod 16)]"
      by (simp add: quote_json_char_def Let_def)
    from 8 have "?n div 16 < 16" by simp
    then have "hex_val (digit_char (?n div 16)) * 16 + hex_val (digit_char (?n mod 16)) = ?n"
      by (simp add: hex_val_digit_char)
    then show ?thesis by (simp add: q)
  next
    case 9
    then have "quote_json_char c = [c]" by (simp add: quote_json_char_def Let_def)
    moreover from 9 have "c \<noteq> CHR 0x5C" by auto
    ultimately show ?thesis by simp
  qed (auto simp add: quote_json_char_def Let_def dest: of_char_known)
qed

lemma quote_json_char_prefix_free:
  assumes "quote_json_char a @ r = quote_json_char b @ s"
  shows "a = b \<and> r = s"
proof -
  from assms have "unquote_json_char (quote_json_char a @ r)
                     = unquote_json_char (quote_json_char b @ s)" by simp
  then show ?thesis by (simp add: unquote_quote_json_char)
qed

lemma quote_json_char_nonempty: "quote_json_char c \<noteq> []"
  by (simp add: quote_json_char_def Let_def)

lemma quote_json_chars_inj:
  "concat (map quote_json_char s) @ r = concat (map quote_json_char t) @ r \<Longrightarrow> s = t"
proof (induction s arbitrary: t)
  case Nil
  show ?case
  proof (cases t)
    case (Cons b bs)
    with Nil have "quote_json_char b @ concat (map quote_json_char bs) = []" by simp
    then show ?thesis by (simp add: quote_json_char_nonempty)
  qed simp
next
  case (Cons a as)
  show ?case
  proof (cases t)
    case Nil
    with Cons.prems have "quote_json_char a @ concat (map quote_json_char as) = []" by simp
    then show ?thesis by (simp add: quote_json_char_nonempty)
  next
    case (Cons b bs)
    with Cons.prems have "quote_json_char a @ (concat (map quote_json_char as) @ r)
                        = quote_json_char b @ (concat (map quote_json_char bs) @ r)" by simp
    then have "a = b" and "concat (map quote_json_char as) @ r = concat (map quote_json_char bs) @ r"
      by (auto dest: quote_json_char_prefix_free)
    with Cons.IH Cons show ?thesis by simp
  qed
qed

lemma QuoteJSONString_inj: "QuoteJSONString s @ r = QuoteJSONString t @ r \<Longrightarrow> s = t"
proof -
  assume "QuoteJSONString s @ r = QuoteJSONString t @ r"
  then have "concat (map quote_json_char s) @ (CHR 0x22 # r)
           = concat (map quote_json_char t) @ (CHR 0x22 # r)"
    by (simp add: QuoteJSONString_def)
  then show ?thesis by (rule quote_json_chars_inj)
qed

lemma error_envelope_inj:
  "JSON_stringify (error_envelope m) = JSON_stringify (error_envelope m') \<longleftrightarrow> m = m'"
proof
  assume "JSON_stringify (error_envelope m) = JSON_stringify (error_envelope m')"
  then have \<open>QuoteJSONString m @ ''},"id":null,"jsonrpc":"2.0"}''
           = QuoteJSONString m' @ ''},"id":null,"jsonrpc":"2.0"}''\<close>
    by (simp add: error_envelope_def QuoteJSONString_def quote_json_char_def)
  then show "m = m'" by (rule QuoteJSONString_inj)
qed simp

lemma or_default_nonempty: "d \<noteq> [] \<Longrightarrow> or_default a d \<noteq> []"
  by (simp add: or_default_def split: option.splits)

lemma escape_quotes_nonempty: "s \<noteq> [] \<Longrightarrow> escape_quotes s \<noteq> []"
  by (cases s) (simp_all add: escape_quotes_def)

lemma body_getUnauthorizedResponse:
  "body (getUnauthorizedResponse config options) =
     JSON_stringify (error_envelope (or_default (opt_field error_description options)
       default_message))"
  by (simp add: getUnauthorizedResponse_def Let_def)

lemma show_nat_401: "show_nat 401 = ''401''"
  by code_simp

subsection \<open>The message of the body\<close>

text \<open>
  Claim C1, as the code has it. The body of \<^verbatim>\<open>getUnauthorizedResponse\<close> is the
  JSON-RPC error envelope whose \<^verbatim>\<open>error.message\<close> is the per-call
  \<^verbatim>\<open>error_description\<close> when one is given and is not the empty string, and the
  default message otherwise, whatever the configuration holds: the envelope with any
  other message is a different string.
\<close>

theorem getUnauthorizedResponse_body_message:
  "body (getUnauthorizedResponse config options) = JSON_stringify (error_envelope m)
     \<longleftrightarrow>
   m = (case options of
          None \<Rightarrow> default_message
        | Some opts \<Rightarrow>
            (case error_description opts of
               None \<Rightarrow> default_message
             | Some d \<Rightarrow> if d = [] then default_message else d))"
  by (simp add: body_getUnauthorizedResponse error_envelope_inj or_default_def opt_field_def
      eq_commute split: option.splits)

text \<open>
  Claim C1 as stated fails: with \<^verbatim>\<open>oauth.error_description\<close> configured as
  \<^verbatim>\<open>Token expired\<close> and no per-call options, the \<^verbatim>\<open>WWW-Authenticate\<close> header
  carries the configured description and the body carries the default message.
\<close>

theorem body_message_ignores_configured_description:
  \<open>body (getUnauthorizedResponse
      \<lparr> apiKey = Some ''test'',
        oauth = Some \<lparr> error = None, error_description = Some ''Token expired'',
                       error_uri = None, scope = None,
                       protectedResource = None, realm = None \<rparr> \<rparr> None)
     \<noteq> JSON_stringify (error_envelope ''Token expired'')
   \<and> body (getUnauthorizedResponse
      \<lparr> apiKey = Some ''test'',
        oauth = Some \<lparr> error = None, error_description = Some ''Token expired'',
                       error_uri = None, scope = None,
                       protectedResource = None, realm = None \<rparr> \<rparr> None)
     = ''{"error":{"code":401,"message":"Unauthorized: Invalid or missing API key"},''
       @ ''"id":null,"jsonrpc":"2.0"}''
   \<and> response_headers (getUnauthorizedResponse
      \<lparr> apiKey = Some ''test'',
        oauth = Some \<lparr> error = None, error_description = Some ''Token expired'',
                       error_uri = None, scope = None,
                       protectedResource = None, realm = None \<rparr> \<rparr> None) ''WWW-Authenticate''
     = Some ''Bearer error="invalid_token", error_description="Token expired"''\<close>
  by (simp add: getUnauthorizedResponse_def error_envelope_def or_default_def opt_field_def
      default_message_def QuoteJSONString_def quote_json_char_def Let_def
      oauth_params_def when_truthy_def or_else_def truthy_def escape_quotes_def
      show_nat_401)

subsection \<open>The API key\<close>

text \<open>
  Claim C2, as the code has it. For a configured key that is not the empty string,
  \<^verbatim>\<open>validateRequest\<close> is true exactly when the headers hold, under the lower-case
  name \<^verbatim>\<open>x-api-key\<close>, a single string equal to the key; an array under that name
  is refused whatever it holds; and a request whose one header has a name that
  lower-cases to \<^verbatim>\<open>x-api-key\<close> is accepted exactly when its value is the key.
\<close>

theorem validateRequest_iff_single_matching_header:
  assumes "apiKey config = Some key" and "key \<noteq> []"
  shows "(validateRequest config req \<longleftrightarrow> headers req ''x-api-key'' = Some (Single key))
       \<and> (headers req ''x-api-key'' = Some (Multiple vs) \<longrightarrow> \<not> validateRequest config req)
       \<and> (toLowerCase name = ''x-api-key'' \<longrightarrow>
            (validateRequest config (createMockRequest [(name, v)]) \<longleftrightarrow> v = key))"
  using assms
  by (auto simp add: validateRequest_def createMockRequest_def
      split: option.splits header_value.splits)

theorem validateRequest_iff_single_matching_header_witness:
  "apiKey \<lparr> apiKey = Some ''test-api-key-123'', oauth = None \<rparr> = Some ''test-api-key-123''
   \<and> ''test-api-key-123'' \<noteq> []
   \<and> toLowerCase ''X-API-KEY'' = ''x-api-key''
   \<and> validateRequest \<lparr> apiKey = Some ''test-api-key-123'', oauth = None \<rparr>
         (createMockRequest [(''X-API-KEY'', ''test-api-key-123'')])
   \<and> \<not> validateRequest \<lparr> apiKey = Some ''test-api-key-123'', oauth = None \<rparr>
         \<lparr> httpMethod = None, url = None,
           headers = [''x-api-key'' \<mapsto> Multiple [''test-api-key-123'', ''another-key'']] \<rparr>"
proof -
  let ?cfg = "\<lparr> apiKey = Some ''test-api-key-123'', oauth = None \<rparr>"
  let ?req = "\<lparr> httpMethod = None, url = None,
           headers = [''x-api-key'' \<mapsto> Multiple [''test-api-key-123'', ''another-key'']] \<rparr>"
  have k: "apiKey ?cfg = Some ''test-api-key-123''" by simp
  have ne: "''test-api-key-123'' \<noteq> []" by simp
  have lc: "toLowerCase ''X-API-KEY'' = ''x-api-key''" by code_simp
  have m: "headers ?req ''x-api-key'' = Some (Multiple [''test-api-key-123'', ''another-key''])"
    by simp
  note t = validateRequest_iff_single_matching_header
             [OF k ne, of ?req "[''test-api-key-123'', ''another-key'']" "''X-API-KEY''"
                "''test-api-key-123''"]
  from t lc have a: "validateRequest ?cfg (createMockRequest [(''X-API-KEY'', ''test-api-key-123'')])"
    by blast
  from t m have c: "\<not> validateRequest ?cfg ?req" by blast
  from k ne lc a c show ?thesis by blast
qed

text \<open>
  Claim C2 as stated fails for the empty string as the configured key: a request with
  no header at all is accepted.
\<close>

theorem validateRequest_empty_key_counterexample:
  "validateRequest \<lparr> apiKey = Some [], oauth = None \<rparr>
       \<lparr> httpMethod = None, url = None, headers = Map.empty \<rparr>
   \<and> headers \<lparr> httpMethod = None, url = None, headers = Map.empty \<rparr> ''x-api-key''
        \<noteq> Some (Single [])"
  by (simp add: validateRequest_def)

text \<open>
  Claim C9. With the empty string as the configured key, \<^verbatim>\<open>validateRequest\<close> is
  true for every request, whatever its headers.
\<close>

theorem empty_key_disables_authentication:
  "validateRequest (config\<lparr> apiKey := Some [] \<rparr>) req"
  by (simp add: validateRequest_def)

subsection \<open>The challenge header\<close>

text \<open>
  Claim C10. When an OAuth descriptor is configured, the parameter list holds an
  \<^verbatim>\<open>error\<close> parameter followed by an \<^verbatim>\<open>error_description\<close> parameter, neither
  with an empty value, so the list is never empty and the response carries the
  \<^verbatim>\<open>WWW-Authenticate\<close> header made of it.
\<close>

theorem oauth_challenge_always_present:
  assumes "oauth config = Some oa"
  shows \<open>\<exists>pre e d post.
           oauth_params oa options
             = pre @ [''error="'' @ e @ ''"'', ''error_description="'' @ d @ ''"''] @ post
         \<and> e \<noteq> [] \<and> d \<noteq> []
         \<and> 0 < length (oauth_params oa options)
         \<and> response_headers (getUnauthorizedResponse config options) ''WWW-Authenticate''
             = Some (''Bearer '' @ join '', '' (oauth_params oa options))\<close>
proof -
  let ?e = "or_default (or_else (opt_field error options) (error oa)) ''invalid_token''"
  let ?d = "escape_quotes (or_default
              (or_else (opt_field error_description options) (error_description oa))
              default_message)"
  have e: "?e \<noteq> []" by (rule or_default_nonempty) simp
  have d: "?d \<noteq> []"
    by (rule escape_quotes_nonempty, rule or_default_nonempty) (simp add: default_message_def)
  let ?p1 = \<open>when_truthy (realm oa) (\<lambda>r. ''realm="'' @ r @ ''"'')\<close>
  let ?p2 = \<open>when_truthy
                 (case protectedResource oa of None \<Rightarrow> None | Some pr \<Rightarrow> resource pr)
                 (\<lambda>r. ''resource_metadata="'' @ r @ ''/.well-known/oauth-protected-resource"'')\<close>
  let ?p5 = \<open>when_truthy (or_else (opt_field error_uri options) (error_uri oa))
                 (\<lambda>u. ''error_uri="'' @ u @ ''"'')\<close>
  let ?p6 = \<open>when_truthy (or_else (opt_field scope options) (scope oa))
                 (\<lambda>v. ''scope="'' @ v @ ''"'')\<close>
  have \<open>oauth_params oa options
      = (?p1 @ ?p2) @ [''error="'' @ ?e @ ''"'', ''error_description="'' @ ?d @ ''"'']
          @ (?p5 @ ?p6)\<close>
    by (simp add: oauth_params_def Let_def)
  then have shape: \<open>\<exists>pre post. oauth_params oa options
      = pre @ [''error="'' @ ?e @ ''"'', ''error_description="'' @ ?d @ ''"''] @ post\<close>
    by blast
  then have len: "0 < length (oauth_params oa options)" by auto
  have hdr: "response_headers (getUnauthorizedResponse config options) ''WWW-Authenticate''
             = Some (''Bearer '' @ join '', '' (oauth_params oa options))"
    using assms len by (simp add: getUnauthorizedResponse_def Let_def)
  from shape e d len hdr show ?thesis by blast
qed

theorem oauth_challenge_always_present_witness:
  \<open>oauth \<lparr> apiKey = Some ''test'',
           oauth = Some \<lparr> error = None, error_description = None, error_uri = None,
                          scope = None, protectedResource = None, realm = None \<rparr> \<rparr>
     = Some \<lparr> error = None, error_description = None, error_uri = None,
              scope = None, protectedResource = None, realm = None \<rparr>
   \<and> response_headers (getUnauthorizedResponse
        \<lparr> apiKey = Some ''test'',
          oauth = Some \<lparr> error = None, error_description = None, error_uri = None,
                         scope = None, protectedResource = None, realm = None \<rparr> \<rparr> None)
        ''WWW-Authenticate''
     = Some (''Bearer error="invalid_token", ''
             @ ''error_description="Unauthorized: Invalid or missing API key"'')\<close>
proof -
  let ?oa = "\<lparr> error = None, error_description = None, error_uri = None,
                scope = None, protectedResource = None, realm = None \<rparr>"
  let ?cfg = "\<lparr> apiKey = Some ''test'', oauth = Some ?oa \<rparr>"
  have h: "oauth ?cfg = Some ?oa" by simp
  from oauth_challenge_always_present [OF h, of None]
  have "response_headers (getUnauthorizedResponse ?cfg None) ''WWW-Authenticate''
          = Some (''Bearer '' @ join '', '' (oauth_params ?oa None))"
    by blast
  then show ?thesis
    by (simp add: oauth_params_def when_truthy_def or_default_def or_else_def opt_field_def
        truthy_def escape_quotes_def default_message_def)
qed

section \<open>Properties of tapTransport\<close>

lemma tapTransport_ref: "fst (tapTransport transport eventHandler st) = transport"
  by (simp add: tapTransport_def Let_def)

lemma tapTransport_object:
  "snd (tapTransport transport eventHandler st) transport =
     \<lparr> close = tap eventHandler (\<lambda>_. TE_close) (Some (close (st transport))),
       onclose = Some (tap eventHandler (\<lambda>_. TE_onclose) (onclose (st transport))),
       onerror = Some (tap eventHandler TE_onerror (onerror (st transport))),
       onmessage = Some (tap eventHandler TE_onmessage (onmessage (st transport))),
       send = tap eventHandler TE_send (Some (send (st transport))),
       start = tap eventHandler (\<lambda>_. TE_start) (Some (start (st transport))) \<rparr>"
  by (simp add: tapTransport_def Let_def)

lemma tapTransport_frame:
  "r \<noteq> transport \<Longrightarrow> snd (tapTransport transport eventHandler st) r = st r"
  by (simp add: tapTransport_def Let_def)

lemma invoke_tapped_normal:
  assumes "eventHandler (event_of c) w = (Inr (), w')"
  shows "invoke (snd (tapTransport transport eventHandler st) transport) c w
           = invoke (st transport) c w'"
  using assms by (cases c) (simp_all add: tapTransport_object tap_def split: option.splits)

lemma invoke_tapped_throw:
  assumes "eventHandler (event_of c) w = (Inl e, w')"
  shows "invoke (snd (tapTransport transport eventHandler st) transport) c w = (Inl e, w')"
  using assms by (cases c) (simp_all add: tapTransport_object tap_def)

lemma invoke_all_Cons:
  "invoke_all t (c # cs) w =
     (fst (invoke t c w) # fst (invoke_all t cs (snd (invoke t c w))),
      snd (invoke_all t cs (snd (invoke t c w))))"
  by (simp split: prod.splits)

lemma invoke_all_tapped_view:
  assumes normal: "\<And>ev w. fst (eventHandler ev w) = Inr ()"
    and silent: "\<And>ev w. view (snd (eventHandler ev w)) = view w"
    and respects: "\<And>c w1 w2. view w1 = view w2 \<Longrightarrow>
           fst (invoke (st transport) c w1) = fst (invoke (st transport) c w2)
         \<and> view (snd (invoke (st transport) c w1)) = view (snd (invoke (st transport) c w2))"
    and start: "view w1 = view w2"
  shows "fst (invoke_all (snd (tapTransport transport eventHandler st) transport) cs w1)
           = fst (invoke_all (st transport) cs w2)
       \<and> view (snd (invoke_all (snd (tapTransport transport eventHandler st) transport) cs w1))
           = view (snd (invoke_all (st transport) cs w2))"
  using start
proof (induction cs arbitrary: w1 w2)
  case Nil
  then show ?case by simp
next
  case (Cons c cs)
  let ?T = "snd (tapTransport transport eventHandler st) transport"
  obtain w' where h: "eventHandler (event_of c) w1 = (Inr (), w')"
    using normal [of "event_of c" w1] by (cases "eventHandler (event_of c) w1") auto
  then have v: "view w' = view w2"
    using silent [of "event_of c" w1] Cons.prems by simp
  have step: "invoke ?T c w1 = invoke (st transport) c w'"
    using h by (rule invoke_tapped_normal)
  from respects [OF v, of c]
  have r: "fst (invoke (st transport) c w') = fst (invoke (st transport) c w2)"
    and v': "view (snd (invoke (st transport) c w')) = view (snd (invoke (st transport) c w2))"
    by simp_all
  from Cons.IH [OF v'] r show ?case
    by (simp only: invoke_all_Cons step fst_conv snd_conv)
qed

text \<open>
  Claim C4, as the code has it. \<^verbatim>\<open>tapTransport\<close> returns the reference it was
  given; the object behind it has each of its six members replaced by a closure that
  publishes the event and then calls the member that was there before (the three hooks
  are set even where none was); and no other object of the store is changed.
\<close>

theorem tapTransport_overwrites_in_place:
  "fst (tapTransport transport eventHandler st) = transport
   \<and> snd (tapTransport transport eventHandler st) transport =
       \<lparr> close = tap eventHandler (\<lambda>_. TE_close) (Some (close (st transport))),
         onclose = Some (tap eventHandler (\<lambda>_. TE_onclose) (onclose (st transport))),
         onerror = Some (tap eventHandler TE_onerror (onerror (st transport))),
         onmessage = Some (tap eventHandler TE_onmessage (onmessage (st transport))),
         send = tap eventHandler TE_send (Some (send (st transport))),
         start = tap eventHandler (\<lambda>_. TE_start) (Some (start (st transport))) \<rparr>
   \<and> (\<forall>r. r \<noteq> transport \<longrightarrow> snd (tapTransport transport eventHandler st) r = st r)"
  by (simp add: tapTransport_ref tapTransport_object tapTransport_frame)

theorem tapTransport_overwrites_in_place_witness:
  "(1 :: ref) \<noteq> 0
   \<and> fst (tapTransport 0 recording_handler (\<lambda>r. recording_transport)) = 0
   \<and> snd (tapTransport 0 recording_handler (\<lambda>r. recording_transport)) 1 = recording_transport
   \<and> send (snd (tapTransport 0 recording_handler (\<lambda>r. recording_transport)) 0) JNull []
       = (Inr None, [Published (TE_send JNull), Delegated (Call_send JNull)])"
proof -
  note t = tapTransport_overwrites_in_place [of 0 recording_handler "\<lambda>r. recording_transport"]
  have ne: "(1 :: ref) \<noteq> 0" by simp
  from t have a: "fst (tapTransport 0 recording_handler (\<lambda>r. recording_transport)) = 0"
    by (rule conjunct1)
  from t ne have b: "snd (tapTransport 0 recording_handler (\<lambda>r. recording_transport)) 1
      = recording_transport"
    by blast
  from t have "send (snd (tapTransport 0 recording_handler (\<lambda>r. recording_transport)) 0)
      = tap recording_handler TE_send (Some (send recording_transport))"
    by simp
  then have c: "send (snd (tapTransport 0 recording_handler (\<lambda>r. recording_transport)) 0) JNull []
       = (Inr None, [Published (TE_send JNull), Delegated (Call_send JNull)])"
    by (simp add: tap_def recording_handler_def recording_transport_def)
  from ne a b c show ?thesis by blast
qed

text \<open>
  Claim C4 as stated fails: the transport that \<^verbatim>\<open>tapTransport\<close> returns is the one
  it was given, and that object's own \<^verbatim>\<open>send\<close> is no longer the function it was.
\<close>

theorem tapTransport_not_a_wrapper:
  "fst (tapTransport 0 recording_handler (\<lambda>r. recording_transport)) = 0
   \<and> send (snd (tapTransport 0 recording_handler (\<lambda>r. recording_transport)) 0)
       \<noteq> send ((\<lambda>r. recording_transport) 0)"
proof -
  have "send (snd (tapTransport 0 recording_handler (\<lambda>r. recording_transport)) 0) JNull []
       \<noteq> send recording_transport JNull []"
    by (simp add: tapTransport_object tap_def recording_handler_def recording_transport_def)
  then have "send (snd (tapTransport 0 recording_handler (\<lambda>r. recording_transport)) 0)
       \<noteq> send recording_transport"
    by (rule contrapos_nn) (rule arg_cong [where f = "\<lambda>f. f JNull []"])
  then show ?thesis by (simp add: tapTransport_ref)
qed

text \<open>
  Claim C5, as the code has it. Whenever the event handler returns normally on the
  event of a call, the tapped transport answers the call as the transport did before
  tapping, on the same payload and from the state the handler left, and the result is
  the delegate's. So for a handler that never throws and does not touch what the
  transport can see, any sequence of calls gives the same outcomes and leaves the same
  visible state, tapped or not.
\<close>

theorem tapped_transport_delegates:
  "(eventHandler (event_of c) w = (Inr (), w') \<longrightarrow>
      invoke (snd (tapTransport transport eventHandler st)
                (fst (tapTransport transport eventHandler st))) c w
        = invoke (st transport) c w')
   \<and> ((\<forall>ev x. fst (eventHandler ev x) = Inr ())
       \<and> (\<forall>ev x. view (snd (eventHandler ev x)) = view x)
       \<and> (\<forall>c x y. view x = view y \<longrightarrow>
              fst (invoke (st transport) c x) = fst (invoke (st transport) c y)
            \<and> view (snd (invoke (st transport) c x)) = view (snd (invoke (st transport) c y)))
       \<longrightarrow>
         fst (invoke_all (snd (tapTransport transport eventHandler st)
                (fst (tapTransport transport eventHandler st))) cs w)
           = fst (invoke_all (st transport) cs w)
       \<and> view (snd (invoke_all (snd (tapTransport transport eventHandler st)
                (fst (tapTransport transport eventHandler st))) cs w))
           = view (snd (invoke_all (st transport) cs w)))"
proof (intro conjI impI)
  assume "eventHandler (event_of c) w = (Inr (), w')"
  then show "invoke (snd (tapTransport transport eventHandler st)
                (fst (tapTransport transport eventHandler st))) c w
        = invoke (st transport) c w'"
    by (simp add: tapTransport_ref invoke_tapped_normal)
next
  assume a: "(\<forall>ev x. fst (eventHandler ev x) = Inr ())
       \<and> (\<forall>ev x. view (snd (eventHandler ev x)) = view x)
       \<and> (\<forall>c x y. view x = view y \<longrightarrow>
              fst (invoke (st transport) c x) = fst (invoke (st transport) c y)
            \<and> view (snd (invoke (st transport) c x)) = view (snd (invoke (st transport) c y)))"
  have "fst (invoke_all (snd (tapTransport transport eventHandler st) transport) cs w)
           = fst (invoke_all (st transport) cs w)
       \<and> view (snd (invoke_all (snd (tapTransport transport eventHandler st) transport) cs w))
           = view (snd (invoke_all (st transport) cs w))"
  proof (rule invoke_all_tapped_view [where view = view])
    fix ev x
    from a show "fst (eventHandler ev x) = Inr ()" by blast
    from a show "view (snd (eventHandler ev x)) = view x" by blast
  next
    fix c x y
    assume "view x = view y"
    with a show "fst (invoke (st transport) c x) = fst (invoke (st transport) c y)
         \<and> view (snd (invoke (st transport) c x)) = view (snd (invoke (st transport) c y))"
      by blast
  qed simp
  then show "fst (invoke_all (snd (tapTransport transport eventHandler st)
                (fst (tapTransport transport eventHandler st))) cs w)
           = fst (invoke_all (st transport) cs w)"
    and "view (snd (invoke_all (snd (tapTransport transport eventHandler st)
                (fst (tapTransport transport eventHandler st))) cs w))
           = view (snd (invoke_all (st transport) cs w))"
    by (simp_all add: tapTransport_ref)
qed

lemma delegated_append: "delegated (xs @ ys) = delegated xs @ delegated ys"
  by (induction xs rule: delegated.induct) simp_all

lemma recording_transport_respects:
  "delegated x = delegated y \<Longrightarrow>
     fst (invoke recording_transport c x) = fst (invoke recording_transport c y)
   \<and> delegated (snd (invoke recording_transport c x))
       = delegated (snd (invoke recording_transport c y))"
  by (cases c) (simp_all add: recording_transport_def delegated_append)

theorem tapped_transport_delegates_witness:
  "recording_handler (event_of (Call_send JNull)) [] = (Inr (), [Published (TE_send JNull)])
   \<and> invoke (snd (tapTransport 0 recording_handler (\<lambda>r. recording_transport)) 0)
         (Call_send JNull) []
       = (Inr None, [Published (TE_send JNull), Delegated (Call_send JNull)])
   \<and> fst (invoke_all (snd (tapTransport 0 recording_handler (\<lambda>r. recording_transport)) 0)
         [Call_start, Call_send JNull, Call_onmessage (JString ''m''), Call_close] [])
       = [Inr None, Inr None, Inr None, Inr None]
   \<and> delegated (snd (invoke_all
         (snd (tapTransport 0 recording_handler (\<lambda>r. recording_transport)) 0)
         [Call_start, Call_send JNull, Call_onmessage (JString ''m''), Call_close] []))
       = [Call_start, Call_send JNull, Call_onmessage (JString ''m''), Call_close]"
proof -
  let ?st = "\<lambda>r :: ref. recording_transport"
  let ?cs = "[Call_start, Call_send JNull, Call_onmessage (JString ''m''), Call_close]"
  let ?T = "snd (tapTransport 0 recording_handler ?st) 0"
  note t = tapped_transport_delegates
    [of recording_handler "Call_send JNull" "[]" "[Published (TE_send JNull)]" 0 ?st
        delegated ?cs]
  have h1: "recording_handler (event_of (Call_send JNull)) []
              = (Inr (), [Published (TE_send JNull)])"
    by (simp add: recording_handler_def)
  have h2: "\<forall>ev x. fst (recording_handler ev x) = Inr ()"
    by (simp add: recording_handler_def)
  have h3: "\<forall>ev x. delegated (snd (recording_handler ev x)) = delegated x"
    by (simp add: recording_handler_def delegated_append)
  have h4: "\<forall>c x y. delegated x = delegated y \<longrightarrow>
       fst (invoke (?st 0) c x) = fst (invoke (?st 0) c y)
     \<and> delegated (snd (invoke (?st 0) c x)) = delegated (snd (invoke (?st 0) c y))"
    using recording_transport_respects by blast
  have ref: "fst (tapTransport 0 recording_handler ?st) = 0"
    by (simp add: tapTransport_ref)
  from t h1 have a: "invoke ?T (Call_send JNull) []
      = invoke recording_transport (Call_send JNull) [Published (TE_send JNull)]"
    unfolding ref by blast
  from t h2 h3 h4 have b: "fst (invoke_all ?T ?cs []) = fst (invoke_all recording_transport ?cs [])"
    and c: "delegated (snd (invoke_all ?T ?cs []))
              = delegated (snd (invoke_all recording_transport ?cs []))"
    unfolding ref by blast+
  have run: "invoke_all recording_transport ?cs []
      = ([Inr None, Inr None, Inr None, Inr None],
         [Delegated Call_start, Delegated (Call_send JNull),
          Delegated (Call_onmessage (JString ''m'')), Delegated Call_close])"
    by (simp add: recording_transport_def)
  from a have a': "invoke ?T (Call_send JNull) []
      = (Inr None, [Published (TE_send JNull), Delegated (Call_send JNull)])"
    by (simp add: recording_transport_def)
  from b have b': "fst (invoke_all ?T ?cs []) = [Inr None, Inr None, Inr None, Inr None]"
    unfolding run by (simp only: fst_conv)
  from c have c': "delegated (snd (invoke_all ?T ?cs [])) = ?cs"
    unfolding run by (simp only: snd_conv delegated.simps)
  from h1 a' b' c' show ?thesis by blast
qed

text \<open>
  Claim C5 as stated fails for a handler that throws: the \<^verbatim>\<open>send\<close> of the tapped
  transport rejects with the handler's error and the message never reaches the
  transport's own \<^verbatim>\<open>send\<close>, which would have taken it.
\<close>

theorem throwing_handler_swallows_send:
  "invoke (snd (tapTransport 0 failing_handler (\<lambda>r. recording_transport)) 0)
       (Call_send (JString ''m'')) []
     = (Inl (Error ''handler failed''), [])
   \<and> invoke recording_transport (Call_send (JString ''m'')) []
     = (Inr None, [Delegated (Call_send (JString ''m''))])"
  by (simp add: tapTransport_object tap_def failing_handler_def recording_transport_def)

section \<open>Properties of proxyServer\<close>

lemma and_then_rejected: "and_then (Some e, s) statement = (Some e, s)"
  by (simp add: and_then_def)

lemma and_then_setRequestHandler:
  "and_then (None, s) (setRequestHandler sch h) =
     (case assertRequestHandlerCapability s sch of
        Some e \<Rightarrow> (Some e, s)
      | None \<Rightarrow> (None, s\<lparr> requestHandlers := (requestHandlers s)(sch \<mapsto> h) \<rparr>))"
  by (simp add: and_then_def setRequestHandler_def split: option.splits)

lemma register_all_rejected: "register_all client schs (Some e, s) = (Some e, s)"
  by (induction schs) (simp_all add: and_then_rejected)

lemma proxyServer_register_all:
  "proxyServer server client snapshot =
     register_all client (request_schemas snapshot)
       (None,
        if has_capability logging snapshot
        then setNotificationHandler LoggingMessageNotificationSchema
               (\<lambda>args. notification client args) server
        else server)"
  by (simp add: proxyServer_def request_schemas_def Let_def)

lemma register_all_fst:
  "fst (register_all client schs (None, s)) = None
     \<longleftrightarrow> (\<forall>sch \<in> set schs. assertRequestHandlerCapability s sch = None)"
proof (induction schs arbitrary: s)
  case Nil
  show ?case by simp
next
  case (Cons sch schs)
  show ?case
  proof (cases "assertRequestHandlerCapability s sch")
    case None
    with Cons.IH [of "s\<lparr> requestHandlers := (requestHandlers s)(sch \<mapsto> forwarding client sch) \<rparr>"]
    show ?thesis by (simp add: and_then_setRequestHandler)
  next
    case (Some e)
    then show ?thesis by (simp add: and_then_setRequestHandler register_all_rejected)
  qed
qed

lemma register_all_requestHandlers:
  "requestHandlers (snd (register_all client schs (None, s))) x =
     (if x \<in> set (takeWhile (\<lambda>sch. assertRequestHandlerCapability s sch = None) schs)
      then Some (forwarding client x) else requestHandlers s x)"
proof (induction schs arbitrary: s)
  case Nil
  show ?case by simp
next
  case (Cons sch schs)
  show ?case
  proof (cases "assertRequestHandlerCapability s sch")
    case None
    with Cons.IH [of "s\<lparr> requestHandlers := (requestHandlers s)(sch \<mapsto> forwarding client sch) \<rparr>"]
    show ?thesis by (simp add: and_then_setRequestHandler)
  next
    case (Some e)
    then show ?thesis by (simp add: and_then_setRequestHandler register_all_rejected)
  qed
qed

lemma register_all_notificationHandlers:
  "notificationHandlers (snd (register_all client schs (None, s))) = notificationHandlers s"
proof (induction schs arbitrary: s)
  case Nil
  show ?case by simp
next
  case (Cons sch schs)
  show ?case
  proof (cases "assertRequestHandlerCapability s sch")
    case None
    with Cons.IH [of "s\<lparr> requestHandlers := (requestHandlers s)(sch \<mapsto> forwarding client sch) \<rparr>"]
    show ?thesis by (simp add: and_then_setRequestHandler)
  next
    case (Some e)
    then show ?thesis by (simp add: and_then_setRequestHandler register_all_rejected)
  qed
qed

lemma takeWhile_last:
  assumes "c \<notin> set xs"
  shows "c \<in> set (takeWhile P (xs @ [c])) \<longleftrightarrow> (\<forall>x \<in> set (xs @ [c]). P x)"
proof (cases "\<forall>x \<in> set xs. P x")
  case True
  then show ?thesis by (simp add: takeWhile_append2 assms)
next
  case False
  then obtain x where x: "x \<in> set xs" "\<not> P x" by blast
  then have "takeWhile P (xs @ [c]) = takeWhile P xs" by (simp add: takeWhile_append1)
  moreover have "c \<notin> set (takeWhile P xs)" using assms set_takeWhileD by metis
  ultimately show ?thesis using x by auto
qed

lemma request_schemas_last:
  "\<exists>xs. request_schemas snapshot = xs @ [CompleteRequestSchema] \<and> CompleteRequestSchema \<notin> set xs"
  by (simp add: request_schemas_def)

lemma proxyServer_fst:
  "fst (proxyServer server client snapshot) = None
     \<longleftrightarrow> (\<forall>sch \<in> set (request_schemas snapshot). assertRequestHandlerCapability server sch = None)"
  by (simp add: proxyServer_register_all register_all_fst setNotificationHandler_def)

lemma proxyServer_requestHandlers:
  "requestHandlers (snd (proxyServer server client snapshot)) x =
     (if x \<in> set (takeWhile (\<lambda>sch. assertRequestHandlerCapability server sch = None)
                    (request_schemas snapshot))
      then Some (forwarding client x) else requestHandlers server x)"
  by (simp add: proxyServer_register_all register_all_requestHandlers setNotificationHandler_def)

lemma proxyServer_notificationHandlers:
  "notificationHandlers (snd (proxyServer server client snapshot)) x =
     (if x = LoggingMessageNotificationSchema \<and> has_capability logging snapshot
      then Some (\<lambda>args. notification client args) else notificationHandlers server x)"
  by (simp add: proxyServer_register_all register_all_notificationHandlers
      setNotificationHandler_def)

lemma proxyServer_complete:
  "requestHandlers (snd (proxyServer server client snapshot)) CompleteRequestSchema =
     (if fst (proxyServer server client snapshot) = None
      then Some (\<lambda>args. complete client (params args))
      else requestHandlers server CompleteRequestSchema)"
proof -
  obtain xs where xs: "request_schemas snapshot = xs @ [CompleteRequestSchema]"
    and n: "CompleteRequestSchema \<notin> set xs"
    using request_schemas_last by blast
  let ?P = "\<lambda>sch. assertRequestHandlerCapability server sch = None"
  have "CompleteRequestSchema \<in> set (takeWhile ?P (request_schemas snapshot))
          \<longleftrightarrow> fst (proxyServer server client snapshot) = None"
    unfolding proxyServer_fst xs by (rule takeWhile_last [OF n])
  then show ?thesis by (simp add: proxyServer_requestHandlers)
qed

lemma proxyServer_fulfilled:
  assumes "fst (proxyServer server client snapshot) = None"
  shows "requestHandlers (snd (proxyServer server client snapshot)) x =
     (if x \<in> set (request_schemas snapshot) then Some (forwarding client x)
      else requestHandlers server x)"
proof -
  from assms
  have all: "\<forall>sch \<in> set (request_schemas snapshot).
               assertRequestHandlerCapability server sch = None"
    by (simp only: proxyServer_fst)
  have tw: "takeWhile (\<lambda>sch. assertRequestHandlerCapability server sch = None)
          (request_schemas snapshot) = request_schemas snapshot"
    unfolding takeWhile_eq_all_conv using all .
  show ?thesis by (simp only: proxyServer_requestHandlers tw)
qed

lemma set_request_schemas:
  "set (request_schemas snapshot) =
     {CompleteRequestSchema}
     \<union> (if has_capability prompts snapshot
        then {GetPromptRequestSchema, ListPromptsRequestSchema} else {})
     \<union> (if has_capability resources snapshot
        then {ListResourcesRequestSchema, ListResourceTemplatesRequestSchema,
              ReadResourceRequestSchema}
        else {})
     \<union> (if has_capability tools snapshot
        then {CallToolRequestSchema, ListToolsRequestSchema} else {})"
  by (auto simp add: request_schemas_def)

lemma register_all_check:
  "assertRequestHandlerCapability (snd (register_all client schs (None, s)))
     = assertRequestHandlerCapability s"
proof (induction schs arbitrary: s)
  case Nil
  show ?case by simp
next
  case (Cons sch schs)
  show ?case
  proof (cases "assertRequestHandlerCapability s sch")
    case None
    with Cons.IH [of "s\<lparr> requestHandlers := (requestHandlers s)(sch \<mapsto> forwarding client sch) \<rparr>"]
    show ?thesis by (simp add: and_then_setRequestHandler)
  next
    case (Some e)
    then show ?thesis by (simp add: and_then_setRequestHandler register_all_rejected)
  qed
qed

lemma proxyServer_check:
  "assertRequestHandlerCapability (snd (proxyServer server client snapshot))
     = assertRequestHandlerCapability server"
  by (simp add: proxyServer_register_all register_all_check setNotificationHandler_def)

lemma proxyServer_groups:
  assumes "fst (proxyServer server client snapshot) = None"
  shows "requestHandlers (snd (proxyServer server client snapshot)) GetPromptRequestSchema
          = (if has_capability prompts snapshot
             then Some (\<lambda>args. getPrompt client (params args))
             else requestHandlers server GetPromptRequestSchema)"
    and "requestHandlers (snd (proxyServer server client snapshot)) ListPromptsRequestSchema
          = (if has_capability prompts snapshot
             then Some (\<lambda>args. listPrompts client (params args))
             else requestHandlers server ListPromptsRequestSchema)"
    and "requestHandlers (snd (proxyServer server client snapshot)) ListResourcesRequestSchema
          = (if has_capability resources snapshot
             then Some (\<lambda>args. listResources client (params args))
             else requestHandlers server ListResourcesRequestSchema)"
    and "requestHandlers (snd (proxyServer server client snapshot))
            ListResourceTemplatesRequestSchema
          = (if has_capability resources snapshot
             then Some (\<lambda>args. listResourceTemplates client (params args))
             else requestHandlers server ListResourceTemplatesRequestSchema)"
    and "requestHandlers (snd (proxyServer server client snapshot)) ReadResourceRequestSchema
          = (if has_capability resources snapshot
             then Some (\<lambda>args. readResource client (params args))
             else requestHandlers server ReadResourceRequestSchema)"
    and "requestHandlers (snd (proxyServer server client snapshot)) CallToolRequestSchema
          = (if has_capability tools snapshot
             then Some (\<lambda>args. callTool client (params args))
             else requestHandlers server CallToolRequestSchema)"
    and "requestHandlers (snd (proxyServer server client snapshot)) ListToolsRequestSchema
          = (if has_capability tools snapshot
             then Some (\<lambda>args. listTools client (params args))
             else requestHandlers server ListToolsRequestSchema)"
    and "requestHandlers (snd (proxyServer server client snapshot))
            LoggingMessageNotificationSchema
          = requestHandlers server LoggingMessageNotificationSchema"
  by (simp_all add: proxyServer_fulfilled [OF assms] set_request_schemas)

text \<open>
  Claim C6, as the code has it. \<^verbatim>\<open>proxyServer\<close> sets the logging handler if the
  snapshot holds the logging capability, then calls \<^verbatim>\<open>setRequestHandler\<close> for the
  requests of the prompts, resources and tools groups that the snapshot holds, and last
  for the completion request. It fulfils exactly when the server accepts every one of
  these calls, and then the completion handler is set whatever the snapshot, and the
  handlers of a group are set if the snapshot holds the capability and are otherwise as
  the server had them. The first call that the server refuses rejects
  \<^verbatim>\<open>proxyServer\<close>: the handlers of the calls before it are set, and nothing after it,
  so that the completion handler is left as it was.
\<close>

theorem proxyServer_registers_by_capability:
  "(fst (proxyServer server client snapshot) = None
      \<longleftrightarrow> (\<forall>sch \<in> set (request_schemas snapshot).
             assertRequestHandlerCapability server sch = None))
   \<and> requestHandlers (snd (proxyServer server client snapshot)) CompleteRequestSchema
     = (if fst (proxyServer server client snapshot) = None
        then Some (\<lambda>args. complete client (params args))
        else requestHandlers server CompleteRequestSchema)
   \<and> (fst (proxyServer server client snapshot) = None \<longrightarrow>
        requestHandlers (snd (proxyServer server client snapshot)) GetPromptRequestSchema
          = (if has_capability prompts snapshot
             then Some (\<lambda>args. getPrompt client (params args))
             else requestHandlers server GetPromptRequestSchema)
      \<and> requestHandlers (snd (proxyServer server client snapshot)) ListPromptsRequestSchema
          = (if has_capability prompts snapshot
             then Some (\<lambda>args. listPrompts client (params args))
             else requestHandlers server ListPromptsRequestSchema)
      \<and> requestHandlers (snd (proxyServer server client snapshot)) ListResourcesRequestSchema
          = (if has_capability resources snapshot
             then Some (\<lambda>args. listResources client (params args))
             else requestHandlers server ListResourcesRequestSchema)
      \<and> requestHandlers (snd (proxyServer server client snapshot))
            ListResourceTemplatesRequestSchema
          = (if has_capability resources snapshot
             then Some (\<lambda>args. listResourceTemplates client (params args))
             else requestHandlers server ListResourceTemplatesRequestSchema)
      \<and> requestHandlers (snd (proxyServer server client snapshot)) ReadResourceRequestSchema
          = (if has_capability resources snapshot
             then Some (\<lambda>args. readResource client (params args))
             else requestHandlers server ReadResourceRequestSchema)
      \<and> requestHandlers (snd (proxyServer server client snapshot)) CallToolRequestSchema
          = (if has_capability tools snapshot
             then Some (\<lambda>args. callTool client (params args))
             else requestHandlers server CallToolRequestSchema)
      \<and> requestHandlers (snd (proxyServer server client snapshot)) ListToolsRequestSchema
          = (if has_capability tools snapshot
             then Some (\<lambda>args. listTools client (params args))
             else requestHandlers server ListToolsRequestSchema)
      \<and> requestHandlers (snd (proxyServer server client snapshot))
            LoggingMessageNotificationSchema
          = requestHandlers server LoggingMessageNotificationSchema)
   \<and> requestHandlers (snd (proxyServer server client snapshot)) x
     = (if x \<in> set (takeWhile (\<lambda>sch. assertRequestHandlerCapability server sch = None)
                       (request_schemas snapshot))
        then Some (forwarding client x) else requestHandlers server x)
   \<and> notificationHandlers (snd (proxyServer server client snapshot)) x
     = (if x = LoggingMessageNotificationSchema \<and> has_capability logging snapshot
        then Some (\<lambda>args. notification client args) else notificationHandlers server x)
   \<and> assertRequestHandlerCapability (snd (proxyServer server client snapshot))
     = assertRequestHandlerCapability server
   \<and> (has_capability capability (Some caps) \<longleftrightarrow> capability caps \<noteq> None)
   \<and> \<not> has_capability capability None"
proof (intro conjI impI)
  show "fst (proxyServer server client snapshot) = None
      \<longleftrightarrow> (\<forall>sch \<in> set (request_schemas snapshot).
             assertRequestHandlerCapability server sch = None)"
    by (rule proxyServer_fst)
  show "requestHandlers (snd (proxyServer server client snapshot)) CompleteRequestSchema
     = (if fst (proxyServer server client snapshot) = None
        then Some (\<lambda>args. complete client (params args))
        else requestHandlers server CompleteRequestSchema)"
    by (rule proxyServer_complete)
  show "requestHandlers (snd (proxyServer server client snapshot)) x
     = (if x \<in> set (takeWhile (\<lambda>sch. assertRequestHandlerCapability server sch = None)
                       (request_schemas snapshot))
        then Some (forwarding client x) else requestHandlers server x)"
    by (rule proxyServer_requestHandlers)
  show "notificationHandlers (snd (proxyServer server client snapshot)) x
     = (if x = LoggingMessageNotificationSchema \<and> has_capability logging snapshot
        then Some (\<lambda>args. notification client args) else notificationHandlers server x)"
    by (rule proxyServer_notificationHandlers)
  show "assertRequestHandlerCapability (snd (proxyServer server client snapshot))
     = assertRequestHandlerCapability server"
    by (rule proxyServer_check)
  show "has_capability capability (Some caps) \<longleftrightarrow> capability caps \<noteq> None"
    by (simp add: has_capability_def)
  show "\<not> has_capability capability None"
    by (simp add: has_capability_def)
qed (erule proxyServer_groups)+

theorem proxyServer_registers_by_capability_witness:
  "fst (proxyServer
          (new_Server \<lparr> logging = Some [], completions = Some [], prompts = Some [],
                        resources = None, tools = None \<rparr>)
          recording_client
          (Some \<lparr> logging = Some [], completions = Some [], prompts = Some [],
                  resources = None, tools = None \<rparr>)) = None
   \<and> requestHandlers (snd (proxyServer
          (new_Server \<lparr> logging = Some [], completions = Some [], prompts = Some [],
                        resources = None, tools = None \<rparr>)
          recording_client
          (Some \<lparr> logging = Some [], completions = Some [], prompts = Some [],
                  resources = None, tools = None \<rparr>))) CompleteRequestSchema
       = Some (\<lambda>args. complete recording_client (params args))
   \<and> requestHandlers (snd (proxyServer
          (new_Server \<lparr> logging = Some [], completions = Some [], prompts = Some [],
                        resources = None, tools = None \<rparr>)
          recording_client
          (Some \<lparr> logging = Some [], completions = Some [], prompts = Some [],
                  resources = None, tools = None \<rparr>))) GetPromptRequestSchema
       = Some (\<lambda>args. getPrompt recording_client (params args))
   \<and> requestHandlers (snd (proxyServer
          (new_Server \<lparr> logging = Some [], completions = Some [], prompts = Some [],
                        resources = None, tools = None \<rparr>)
          recording_client
          (Some \<lparr> logging = Some [], completions = Some [], prompts = Some [],
                  resources = None, tools = None \<rparr>))) ListResourcesRequestSchema
       = None
   \<and> notificationHandlers (snd (proxyServer
          (new_Server \<lparr> logging = Some [], completions = Some [], prompts = Some [],
                        resources = None, tools = None \<rparr>)
          recording_client
          (Some \<lparr> logging = Some [], completions = Some [], prompts = Some [],
                  resources = None, tools = None \<rparr>))) LoggingMessageNotificationSchema
       = Some (\<lambda>args. notification recording_client args)"
proof -
  let ?caps = "\<lparr> logging = Some [], completions = Some [], prompts = Some [],
                 resources = None, tools = None \<rparr>"
  let ?server = "new_Server ?caps :: (unit, string list) Server"
  let ?out = "proxyServer ?server recording_client (Some ?caps)"
  note t = proxyServer_registers_by_capability
             [of ?server recording_client "Some ?caps" LoggingMessageNotificationSchema]
  have accepted: "\<forall>sch \<in> set (request_schemas (Some ?caps)).
                    assertRequestHandlerCapability ?server sch = None"
    by (simp add: request_schemas_def has_capability_def new_Server_def requires_def)
  have p: "has_capability prompts (Some ?caps)" and r: "\<not> has_capability resources (Some ?caps)"
    and l: "has_capability logging (Some ?caps)"
    by (simp_all add: has_capability_def)
  have old: "requestHandlers ?server ListResourcesRequestSchema = None"
    by (simp add: new_Server_def)
  from t accepted have f: "fst ?out = None" by blast
  from t f have c: "requestHandlers (snd ?out) CompleteRequestSchema
      = Some (\<lambda>args. complete recording_client (params args))"
    by simp
  from t f p have g: "requestHandlers (snd ?out) GetPromptRequestSchema
      = Some (\<lambda>args. getPrompt recording_client (params args))"
    by simp
  from t f r old have n: "requestHandlers (snd ?out) ListResourcesRequestSchema = None"
    by simp
  from t l have m: "notificationHandlers (snd ?out) LoggingMessageNotificationSchema
      = Some (\<lambda>args. notification recording_client args)"
    by simp
  from f c g n m show ?thesis by blast
qed

text \<open>
  Claim C6 as stated fails for a server constructed, as bin/mcp-proxy.ts constructs it,
  with the snapshot as its capabilities, when the snapshot holds the tools capability
  only: the two handlers of the tools group are set, the server refuses the handler of
  the completion request, \<^verbatim>\<open>proxyServer\<close> rejects, and no completion handler is set.
\<close>

theorem proxyServer_completion_refused:
  "fst (proxyServer
          (new_Server \<lparr> logging = None, completions = None, prompts = None,
                        resources = None, tools = Some [] \<rparr>)
          recording_client
          (Some \<lparr> logging = None, completions = None, prompts = None,
                  resources = None, tools = Some [] \<rparr>))
     = Some (Error ''Server does not support completions (required for completion/complete)'')
   \<and> requestHandlers (snd (proxyServer
          (new_Server \<lparr> logging = None, completions = None, prompts = None,
                        resources = None, tools = Some [] \<rparr>)
          recording_client
          (Some \<lparr> logging = None, completions = None, prompts = None,
                  resources = None, tools = Some [] \<rparr>))) CompleteRequestSchema
     = None
   \<and> dom (requestHandlers (snd (proxyServer
          (new_Server \<lparr> logging = None, completions = None, prompts = None,
                        resources = None, tools = Some [] \<rparr>)
          recording_client
          (Some \<lparr> logging = None, completions = None, prompts = None,
                  resources = None, tools = Some [] \<rparr>))))
     = {CallToolRequestSchema, ListToolsRequestSchema}"
  by (auto simp add: proxyServer_def Let_def has_capability_def and_then_def
      setRequestHandler_def new_Server_def requires_def split: if_splits)

section \<open>Properties of startSSEServer\<close>

lemma resHeaders_respond: "resHeaders (respond status text res) = resHeaders res"
  by (simp add: respond_def)

lemma resHeaders_sse_connect: "resHeaders (fst (snd (sse_connect opts env res g))) = resHeaders res"
  by (simp add: sse_connect_def Let_def split: prod.splits sum.splits option.splits)

lemma resHeaders_post_message: "resHeaders (fst (snd (post_message env req res g))) = resHeaders res"
  by (simp add: post_message_def resHeaders_respond split: prod.splits sum.splits option.splits)

lemma resHeaders_requestListener:
  "resHeaders (fst (snd (requestListener opts env req res0 g)))
     = resHeaders (fst (set_cors_headers env req res0 (world g)))"
  by (simp add: requestListener_def Let_def resHeaders_respond resHeaders_sse_connect
      resHeaders_post_message split: prod.splits)

text \<open>
  Claim C3, as the code has it. When the request's \<^verbatim>\<open>Origin\<close> header is not empty
  and the URL constructor accepts it, every response of the listener, whichever branch
  answers and also when the listener rejects, carries the origin that the constructor
  computed as \<^verbatim>\<open>Access-Control-Allow-Origin\<close>, \<^verbatim>\<open>true\<close> as
  \<^verbatim>\<open>Access-Control-Allow-Credentials\<close>, the three methods and the header wildcard.
  When the header is missing or empty, or the constructor throws, the listener sets no
  header at all.
\<close>

theorem cors_headers_on_every_response:
  "(headers req ''origin'' = Some hv \<and> header_truthy hv
      \<and> URL_origin env (header_string hv) = Inr origin
    \<longrightarrow> resHeaders (fst (snd (requestListener opts env req res0 g)))
        = (resHeaders res0)
            (''Access-Control-Allow-Origin'' \<mapsto> origin,
             ''Access-Control-Allow-Credentials'' \<mapsto> ''true'',
             ''Access-Control-Allow-Methods'' \<mapsto> ''GET, POST, OPTIONS'',
             ''Access-Control-Allow-Headers'' \<mapsto> ''*''))
   \<and> (headers req ''origin'' = None \<or> headers req ''origin'' = Some (Single [])
        \<or> (headers req ''origin'' = Some hv \<and> URL_origin env (header_string hv) = Inl e)
    \<longrightarrow> resHeaders (fst (snd (requestListener opts env req res0 g))) = resHeaders res0)"
  by (auto simp add: resHeaders_requestListener set_cors_headers_def)

theorem cors_headers_on_every_response_witness:
  "headers (request_from ''POST'' ''/messages'' ''https://a.example'') ''origin''
     = Some (Single ''https://a.example'')
   \<and> header_truthy (Single ''https://a.example'')
   \<and> URL_origin example_env (header_string (Single ''https://a.example''))
       = Inr ''https://a.example''
   \<and> ended (fst (snd (requestListener example_opts example_env
         (request_from ''POST'' ''/messages'' ''https://a.example'') new_response
         example_gateway))) = Some ''No sessionId''
   \<and> resHeaders (fst (snd (requestListener example_opts example_env
         (request_from ''POST'' ''/messages'' ''https://a.example'') new_response
         example_gateway)))
       = [''Access-Control-Allow-Origin'' \<mapsto> ''https://a.example'',
          ''Access-Control-Allow-Credentials'' \<mapsto> ''true'',
          ''Access-Control-Allow-Methods'' \<mapsto> ''GET, POST, OPTIONS'',
          ''Access-Control-Allow-Headers'' \<mapsto> ''*'']
   \<and> headers \<lparr> httpMethod = Some ''GET'', url = Some ''/ping'', headers = Map.empty \<rparr> ''origin''
       = None
   \<and> resHeaders (fst (snd (requestListener example_opts example_env
         \<lparr> httpMethod = Some ''GET'', url = Some ''/ping'', headers = Map.empty \<rparr>
         new_response example_gateway))) = Map.empty"
proof -
  let ?req = "request_from ''POST'' ''/messages'' ''https://a.example''"
  let ?ping = "\<lparr> httpMethod = Some ''GET'', url = Some ''/ping'', headers = Map.empty \<rparr>"
  have h1: "headers ?req ''origin'' = Some (Single ''https://a.example'')"
    by (simp add: request_from_def)
  have h2: "header_truthy (Single ''https://a.example'')" by simp
  have h3: "URL_origin example_env (header_string (Single ''https://a.example''))
              = Inr ''https://a.example''"
    by (simp add: example_env_def example_URL_origin_def)
  have h4: "headers ?ping ''origin'' = None" by simp
  have r0: "resHeaders (new_response :: (nat, string list) ServerResponse) = Map.empty"
    by (simp add: new_response_def)
  from cors_headers_on_every_response
         [of ?req "Single ''https://a.example''" example_env "''https://a.example''"
             example_opts new_response example_gateway]
       h1 h2 h3
  have a: "resHeaders (fst (snd (requestListener example_opts example_env ?req new_response
              example_gateway)))
       = [''Access-Control-Allow-Origin'' \<mapsto> ''https://a.example'',
          ''Access-Control-Allow-Credentials'' \<mapsto> ''true'',
          ''Access-Control-Allow-Methods'' \<mapsto> ''GET, POST, OPTIONS'',
          ''Access-Control-Allow-Headers'' \<mapsto> ''*'']"
    unfolding r0 by blast
  from cors_headers_on_every_response
         [of ?ping _ example_env _ example_opts new_response example_gateway] h4
  have b: "resHeaders (fst (snd (requestListener example_opts example_env ?ping new_response
              example_gateway))) = Map.empty"
    unfolding r0 by blast
  have c: "ended (fst (snd (requestListener example_opts example_env ?req new_response
              example_gateway))) = Some ''No sessionId''"
    by (simp add: requestListener_def set_cors_headers_def request_from_def example_env_def
        example_URL_origin_def example_opts_def url_startsWith_def post_message_def
        truthy_def respond_def Let_def)
  from h1 h2 h3 c a h4 b show ?thesis by blast
qed

text \<open>
  Claim C3 as stated fails on three requests to \<^verbatim>\<open>/ping\<close>. With an
  \<^verbatim>\<open>Origin\<close> that is no URL the constructor throws and the response has no
  allow-origin header; with an empty \<^verbatim>\<open>Origin\<close> likewise, the constructor not being
  called; and with an origin in another spelling the header is the origin that the
  constructor computed, not the value that was sent.
\<close>

theorem cors_origin_not_echoed:
  "headers (request_from ''GET'' ''/ping'' ''not a url'') ''origin'' = Some (Single ''not a url'')
   \<and> ended (fst (snd (requestListener example_opts example_env
         (request_from ''GET'' ''/ping'' ''not a url'') new_response example_gateway)))
       = Some ''pong''
   \<and> resHeaders (fst (snd (requestListener example_opts example_env
         (request_from ''GET'' ''/ping'' ''not a url'') new_response example_gateway)))
         ''Access-Control-Allow-Origin'' = None
   \<and> resHeaders (fst (snd (requestListener example_opts example_env
         (request_from ''GET'' ''/ping'' []) new_response example_gateway)))
         ''Access-Control-Allow-Origin'' = None
   \<and> resHeaders (fst (snd (requestListener example_opts example_env
         (request_from ''GET'' ''/ping'' ''https://A.EXAMPLE:443/path'') new_response
         example_gateway)))
         ''Access-Control-Allow-Origin'' = Some ''https://a.example''"
  by (simp add: requestListener_def set_cors_headers_def request_from_def example_env_def
      example_URL_origin_def example_opts_def respond_def new_response_def Let_def)

subsection \<open>Teardown of a session\<close>

lemma closeListeners_set_cors_headers:
  "closeListeners (fst (set_cors_headers env req res w)) = closeListeners res"
  by (simp add: set_cors_headers_def split: option.splits sum.splits)

lemma sse_connect_established:
  assumes "sse_connect opts env res g = (None, res', g')"
    and "new_SSEServerTransport env (world g) = (transport, w0)"
  shows "\<exists>server w1.
           createServer opts () w0 = (Inr server, w1)
         \<and> closeListeners res' = closeListeners res @ [on_close opts env server transport]
         \<and> activeTransports g' = (activeTransports g)(sessionId transport \<mapsto> transport)"
  using assms
  by (auto simp add: sse_connect_def Let_def split: prod.splits sum.splits option.splits)

lemma requestListener_sse:
  assumes "httpMethod req = Some ''GET''" and "url req = Some (endpoint opts)"
    and "endpoint opts \<noteq> ''/ping''"
  shows "requestListener opts env req res0 g0
           = sse_connect opts env (fst (set_cors_headers env req res0 (world g0)))
               (g0\<lparr> world := snd (set_cors_headers env req res0 (world g0)) \<rparr>)"
  using assms by (simp add: requestListener_def Let_def split: prod.splits)

lemma on_close_steps:
  "steps (on_close opts env server transport g)
     = steps g
       @ [Server_close_settled server (fst (server_close env server (world g))),
          Session_deleted (sessionId transport)]
       @ (case onClose opts of None \<Rightarrow> [] | Some f \<Rightarrow> [OnClose_called server])"
  by (simp add: on_close_def Let_def split: prod.splits option.splits)

lemma on_close_activeTransports:
  "activeTransports (on_close opts env server transport g)
     = (activeTransports g)(sessionId transport := None)"
  by (simp add: on_close_def Let_def split: prod.splits option.splits)

lemma on_close_world:
  "world (on_close opts env server transport g) =
     (let closed = server_close env server (world g);
          w = (case fst closed of
                 Inl e \<Rightarrow> console_error env ''Error closing server:'' e (snd closed)
               | Inr _ \<Rightarrow> snd closed)
      in case onClose opts of None \<Rightarrow> w | Some f \<Rightarrow> snd (f server w))"
  by (simp add: on_close_def Let_def split: prod.splits option.splits sum.splits)

text \<open>
  Claim C7, as the code has it. A \<^verbatim>\<open>GET\<close> on the endpoint that establishes a session
  has made the session's transport, has obtained the endpoint from \<^verbatim>\<open>createServer\<close>,
  leaves the transport in the table and exactly one listener on the response. When the
  response stream closes, in whatever state, the gateway awaits the \<^verbatim>\<open>close\<close> of that
  endpoint, which may fulfil or reject (a rejection is logged and dropped), then deletes
  the session from the table, then calls \<^verbatim>\<open>onClose\<close> with that endpoint if one was
  given, once, in the world that the close and the logging left, and does nothing else.
\<close>

theorem teardown_closes_deletes_then_calls_onClose:
  assumes "httpMethod req = Some ''GET''" and "url req = Some (endpoint opts)"
    and "endpoint opts \<noteq> ''/ping''"
    and "new_SSEServerTransport env (snd (set_cors_headers env req new_response (world g0)))
           = (transport, w0)"
    and "requestListener opts env req new_response g0 = (None, res, g1)"
  shows "\<exists>server w1.
           createServer opts () w0 = (Inr server, w1)
         \<and> activeTransports g1 = (activeTransports g0)(sessionId transport \<mapsto> transport)
         \<and> (\<forall>g. steps (emit_close res g)
                  = steps g
                    @ [Server_close_settled server (fst (server_close env server (world g))),
                       Session_deleted (sessionId transport)]
                    @ (case onClose opts of None \<Rightarrow> [] | Some f \<Rightarrow> [OnClose_called server])
                \<and> activeTransports (emit_close res g)
                  = (activeTransports g)(sessionId transport := None)
                \<and> world (emit_close res g)
                  = (let closed = server_close env server (world g);
                         w = (case fst closed of
                                Inl e \<Rightarrow> console_error env ''Error closing server:'' e
                                           (snd closed)
                              | Inr _ \<Rightarrow> snd closed)
                     in case onClose opts of None \<Rightarrow> w | Some f \<Rightarrow> snd (f server w)))"
proof -
  let ?res = "fst (set_cors_headers env req new_response (world g0))"
  let ?g = "g0\<lparr> world := snd (set_cors_headers env req new_response (world g0)) \<rparr>"
  from assms have c: "sse_connect opts env ?res ?g = (None, res, g1)"
    by (simp add: requestListener_sse)
  from assms(4) have t: "new_SSEServerTransport env (world ?g) = (transport, w0)" by simp
  from sse_connect_established [OF c t] obtain server w1
    where s: "createServer opts () w0 = (Inr server, w1)"
      and l: "closeListeners res = closeListeners ?res @ [on_close opts env server transport]"
      and a: "activeTransports g1 = (activeTransports ?g)(sessionId transport \<mapsto> transport)"
    by blast
  have "closeListeners ?res = []"
    by (simp add: closeListeners_set_cors_headers new_response_def)
  with l have e: "emit_close res g = on_close opts env server transport g" for g
    by (simp add: emit_close_def)
  from a have a': "activeTransports g1 = (activeTransports g0)(sessionId transport \<mapsto> transport)"
    by simp
  have "\<forall>g. steps (emit_close res g)
                  = steps g
                    @ [Server_close_settled server (fst (server_close env server (world g))),
                       Session_deleted (sessionId transport)]
                    @ (case onClose opts of None \<Rightarrow> [] | Some f \<Rightarrow> [OnClose_called server])
                \<and> activeTransports (emit_close res g)
                  = (activeTransports g)(sessionId transport := None)
                \<and> world (emit_close res g)
                  = (let closed = server_close env server (world g);
                         w = (case fst closed of
                                Inl e \<Rightarrow> console_error env ''Error closing server:'' e
                                           (snd closed)
                              | Inr _ \<Rightarrow> snd closed)
                     in case onClose opts of None \<Rightarrow> w | Some f \<Rightarrow> snd (f server w))"
    by (simp only: e on_close_steps on_close_activeTransports on_close_world simp_thms)
  with s a' show ?thesis by blast
qed

lemma example_session:
  "requestListener example_opts example_env (request_from ''GET'' ''/sse'' ''https://a.example'')
       new_response example_gateway
     = (None,
        \<lparr> resHeaders = [''Access-Control-Allow-Origin'' \<mapsto> ''https://a.example'',
                        ''Access-Control-Allow-Credentials'' \<mapsto> ''true'',
                        ''Access-Control-Allow-Methods'' \<mapsto> ''GET, POST, OPTIONS'',
                        ''Access-Control-Allow-Headers'' \<mapsto> ''*''],
          statusCode = None, ended = None,
          closeListeners = [on_close example_opts example_env 7 \<lparr> sessionId = ''session-1'' \<rparr>] \<rparr>,
        \<lparr> activeTransports = [''session-1'' \<mapsto> \<lparr> sessionId = ''session-1'' \<rparr>],
          world = [''createServer'', ''connect'', ''send'', ''onConnect''],
          steps = [] \<rparr>)"
  by (simp add: requestListener_def set_cors_headers_def request_from_def example_env_def
      example_URL_origin_def example_opts_def sse_connect_def new_response_def
      example_gateway_def Let_def)

theorem teardown_closes_deletes_then_calls_onClose_witness:
  "httpMethod (request_from ''GET'' ''/sse'' ''https://a.example'') = Some ''GET''
   \<and> url (request_from ''GET'' ''/sse'' ''https://a.example'') = Some (endpoint example_opts)
   \<and> endpoint example_opts \<noteq> ''/ping''
   \<and> new_SSEServerTransport example_env
         (snd (set_cors_headers example_env
                 (request_from ''GET'' ''/sse'' ''https://a.example'')
                 (new_response :: (nat, string list) ServerResponse) (world example_gateway)))
       = (\<lparr> sessionId = ''session-1'' \<rparr>, [])
   \<and> fst (requestListener example_opts example_env
           (request_from ''GET'' ''/sse'' ''https://a.example'') new_response example_gateway)
       = None
   \<and> createServer example_opts () [] = (Inr 7, [''createServer''])
   \<and> steps (emit_close
              (fst (snd (requestListener example_opts example_env
                 (request_from ''GET'' ''/sse'' ''https://a.example'') new_response
                 example_gateway)))
              (snd (snd (requestListener example_opts example_env
                 (request_from ''GET'' ''/sse'' ''https://a.example'') new_response
                 example_gateway))))
       = [Server_close_settled 7 (Inr ()), Session_deleted ''session-1'', OnClose_called 7]
   \<and> world (emit_close
              (fst (snd (requestListener example_opts example_env
                 (request_from ''GET'' ''/sse'' ''https://a.example'') new_response
                 example_gateway)))
              (snd (snd (requestListener example_opts example_env
                 (request_from ''GET'' ''/sse'' ''https://a.example'') new_response
                 example_gateway))))
       = [''createServer'', ''connect'', ''send'', ''onConnect'', ''close'', ''onClose'']
   \<and> activeTransports (emit_close
              (fst (snd (requestListener example_opts example_env
                 (request_from ''GET'' ''/sse'' ''https://a.example'') new_response
                 example_gateway)))
              (snd (snd (requestListener example_opts example_env
                 (request_from ''GET'' ''/sse'' ''https://a.example'') new_response
                 example_gateway)))) ''session-1''
       = None"
proof -
  let ?req = "request_from ''GET'' ''/sse'' ''https://a.example''"
  let ?out = "requestListener example_opts example_env ?req new_response example_gateway"
  let ?t = "\<lparr> sessionId = ''session-1'' \<rparr>"
  have h1: "httpMethod ?req = Some ''GET''" by (simp add: request_from_def)
  have h2: "url ?req = Some (endpoint example_opts)"
    by (simp add: request_from_def example_opts_def)
  have h3: "endpoint example_opts \<noteq> ''/ping''" by (simp add: example_opts_def)
  have h4: "new_SSEServerTransport example_env
         (snd (set_cors_headers example_env ?req
                 (new_response :: (nat, string list) ServerResponse) (world example_gateway)))
       = (?t, [])"
    by (simp add: example_env_def set_cors_headers_def request_from_def example_URL_origin_def
        example_gateway_def)
  have h0: "fst ?out = None" by (simp add: example_session)
  then have h5: "?out = (None, fst (snd ?out), snd (snd ?out))"
    by (metis prod.collapse)
  have cs: "createServer example_opts () [] = (Inr 7, [''createServer''])"
    by (simp add: example_opts_def)
  have w: "world (snd (snd ?out)) = [''createServer'', ''connect'', ''send'', ''onConnect'']"
    and s: "steps (snd (snd ?out)) = []"
    and a: "activeTransports (snd (snd ?out)) = [''session-1'' \<mapsto> ?t]"
    by (simp_all add: example_session)
  from teardown_closes_deletes_then_calls_onClose [OF h1 h2 h3 h4 h5]
  obtain server w1 where
    c: "createServer example_opts () [] = (Inr server, w1)"
    and q: "\<forall>g. steps (emit_close (fst (snd ?out)) g)
           = steps g
             @ [Server_close_settled server (fst (server_close example_env server (world g))),
                Session_deleted (sessionId ?t)]
             @ (case onClose example_opts of None \<Rightarrow> [] | Some f \<Rightarrow> [OnClose_called server])
         \<and> activeTransports (emit_close (fst (snd ?out)) g)
           = (activeTransports g)(sessionId ?t := None)
         \<and> world (emit_close (fst (snd ?out)) g)
           = (let closed = server_close example_env server (world g);
                  w = (case fst closed of
                         Inl e \<Rightarrow> console_error example_env ''Error closing server:'' e
                                    (snd closed)
                       | Inr _ \<Rightarrow> snd closed)
              in case onClose example_opts of None \<Rightarrow> w | Some f \<Rightarrow> snd (f server w))"
    by blast
  from c cs have server: "server = 7" by simp
  have sc: "server_close example_env srv x = (Inr (), x @ [''close''])" for srv x
    by (simp add: example_env_def)
  have oc: "onClose example_opts = Some (\<lambda>server w. (Inr (), w @ [''onClose'']))"
    by (simp add: example_opts_def)
  note q' = spec [OF q, of "snd (snd ?out)"]
  from q' have r1: "steps (emit_close (fst (snd ?out)) (snd (snd ?out)))
       = [Server_close_settled 7 (Inr ()), Session_deleted ''session-1'', OnClose_called 7]"
    unfolding server s w sc oc by simp
  from q' have r2: "world (emit_close (fst (snd ?out)) (snd (snd ?out)))
       = [''createServer'', ''connect'', ''send'', ''onConnect'', ''close'', ''onClose'']"
    unfolding server s w sc oc by simp
  from q' have r3: "activeTransports (emit_close (fst (snd ?out)) (snd (snd ?out))) ''session-1''
       = None"
    unfolding a by simp
  from h1 h2 h3 h4 h0 cs r1 r2 r3 show ?thesis by blast
qed

text \<open>
  Claim C7 as stated fails when the endpoint's \<^verbatim>\<open>close\<close> rejects: the session is
  established as before, the response stream closes, \<^verbatim>\<open>server.close()\<close> fails and is
  only logged, and \<^verbatim>\<open>onClose\<close> is called all the same, on an endpoint that was not
  closed.
\<close>

theorem onClose_called_after_failed_close:
  "fst (requestListener example_opts failing_close_env
          (request_from ''GET'' ''/sse'' ''https://a.example'') new_response example_gateway)
     = None
   \<and> steps (emit_close
        (fst (snd (requestListener example_opts failing_close_env
           (request_from ''GET'' ''/sse'' ''https://a.example'') new_response example_gateway)))
        (snd (snd (requestListener example_opts failing_close_env
           (request_from ''GET'' ''/sse'' ''https://a.example'') new_response example_gateway))))
     = [Server_close_settled 7 (Inl (Error ''close failed'')), Session_deleted ''session-1'',
        OnClose_called 7]
   \<and> world (emit_close
        (fst (snd (requestListener example_opts failing_close_env
           (request_from ''GET'' ''/sse'' ''https://a.example'') new_response example_gateway)))
        (snd (snd (requestListener example_opts failing_close_env
           (request_from ''GET'' ''/sse'' ''https://a.example'') new_response example_gateway))))
     = [''createServer'', ''connect'', ''send'', ''onConnect'', ''Error closing server:'',
        ''onClose'']"
  by (simp add: requestListener_def set_cors_headers_def request_from_def example_env_def
      failing_close_env_def example_URL_origin_def example_opts_def sse_connect_def
      new_response_def example_gateway_def emit_close_def on_close_def Let_def)

section \<open>Properties of the event log\<close>

lemma log_of_Nil: "log_of [] = Map.empty"
  by (simp add: log_of_def)

lemma log_of_snoc:
  "log_of (appends @ [a]) = snd (EventLog_append (log_of appends) (fst a) (snd a))"
  by (simp add: log_of_def)

lemma stream_events_append:
  "stream_events (snd (EventLog_append log sid' message)) sid =
     (if sid = sid'
      then stream_events log sid
           @ [\<lparr> streamId = sid, eventId = next_eventId (stream_events log sid),
                payload = message \<rparr>]
      else stream_events log sid)"
  by (simp add: EventLog_append_def Let_def stream_events_def)

lemma next_eventId_upt:
  assumes "map eventId evs = [1..<Suc n]"
  shows "next_eventId evs = Suc n"
proof (cases evs rule: rev_cases)
  case Nil
  with assms have "[1..<Suc n] = []" by (simp del: upt_Suc)
  then have "n = 0" by (simp del: upt_Suc)
  with Nil show ?thesis by (simp add: next_eventId_def)
next
  case (snoc ys y)
  from assms have "length evs = n" by (metis length_map length_upt diff_Suc_1)
  with snoc have n: "n = Suc (length ys)" by simp
  from assms snoc have "map eventId ys @ [eventId y] = [1..<Suc (length ys)] @ [Suc (length ys)]"
    by (simp add: n)
  then have "eventId y = Suc (length ys)" by simp
  with snoc n show ?thesis
    by (simp add: next_eventId_def)
qed

lemma stream_eventIds:
  "map eventId (stream_events (log_of appends) sid)
     = [1..<Suc (length (filter (\<lambda>a. fst a = sid) appends))]"
proof (induction appends rule: rev_induct)
  case Nil
  show ?case by (simp add: log_of_Nil stream_events_def)
next
  case (snoc a appends)
  show ?case
  proof (cases "fst a = sid")
    case True
    with snoc show ?thesis
      by (simp add: log_of_snoc stream_events_append next_eventId_upt)
  next
    case False
    then have "sid \<noteq> fst a" by blast
    with snoc False show ?thesis
      by (simp add: log_of_snoc stream_events_append)
  qed
qed

lemma stream_payloads:
  "map payload (stream_events (log_of appends) sid)
     = map snd (filter (\<lambda>a. fst a = sid) appends)"
proof (induction appends rule: rev_induct)
  case Nil
  show ?case by (simp add: log_of_Nil stream_events_def)
next
  case (snoc a appends)
  show ?case
  proof (cases "fst a = sid")
    case True
    with snoc show ?thesis by (simp add: log_of_snoc stream_events_append)
  next
    case False
    then have "sid \<noteq> fst a" by blast
    with snoc False show ?thesis by (simp add: log_of_snoc stream_events_append)
  qed
qed

lemma filter_after_is_drop:
  "map f xs = [Suc m..<Suc m + length xs] \<Longrightarrow> filter (\<lambda>x. k < f x) xs = drop (k - m) xs"
proof (induction xs arbitrary: m)
  case Nil
  show ?case by simp
next
  case (Cons x xs)
  from Cons.prems
  have "f x # map f xs = Suc m # [Suc (Suc m)..<Suc (Suc m) + length xs]"
    by (simp add: upt_conv_Cons del: upt_Suc)
  then have fx: "f x = Suc m"
    and rest: "map f xs = [Suc (Suc m)..<Suc (Suc m) + length xs]"
    by simp_all
  from Cons.IH [OF rest] have ih: "filter (\<lambda>x. k < f x) xs = drop (k - Suc m) xs" .
  show ?case
  proof (cases "k < Suc m")
    case True
    then have "k - m = 0" and "k - Suc m = 0" by simp_all
    with ih fx True show ?thesis by simp
  next
    case False
    then have "k - m = Suc (k - Suc m)" by simp
    with ih fx False show ?thesis by simp
  qed
qed

lemma replay_sorted:
  assumes "sorted (map eventId (stream_events log sid))"
  shows "EventLog_replay log sid afterEventId deliver st
           = fold deliver (filter (\<lambda>ev. afterEventId < eventId ev) (stream_events log sid)) st"
proof (cases "log sid")
  case None
  then show ?thesis by (simp add: EventLog_replay_def stream_events_def)
next
  case (Some evs)
  with assms have "sorted (map eventId evs)" by (simp add: stream_events_def)
  then have "sort_key eventId (filter (\<lambda>ev. afterEventId < eventId ev) evs)
               = filter (\<lambda>ev. afterEventId < eventId ev) evs"
    by (intro sort_key_id_if_sorted sorted_filter)
  with Some show ?thesis by (simp add: EventLog_replay_def stream_events_def)
qed

text \<open>
  Claim C8, for the event log as the spec describes it. After any sequence of appends
  to an empty log, the events of a stream carry the identifiers 1, 2, \<dots> in the order
  of the appends, and \<^verbatim>\<open>replay\<close> calls \<^verbatim>\<open>deliver\<close> on those of them whose identifier
  is greater than \<^verbatim>\<open>afterEventId\<close>, once each and in that order, which are the stream's
  events but the first \<^verbatim>\<open>afterEventId\<close>. On a log that does not know the stream it
  calls nothing and returns.
\<close>

theorem replay_delivers_events_after_position:
  "EventLog_replay (log_of appends) sid afterEventId deliver st
     = fold deliver
         (filter (\<lambda>ev. afterEventId < eventId ev) (stream_events (log_of appends) sid)) st
   \<and> filter (\<lambda>ev. afterEventId < eventId ev) (stream_events (log_of appends) sid)
     = drop afterEventId (stream_events (log_of appends) sid)
   \<and> map eventId (stream_events (log_of appends) sid)
     = [1..<Suc (length (filter (\<lambda>a. fst a = sid) appends))]
   \<and> map payload (stream_events (log_of appends) sid)
     = map snd (filter (\<lambda>a. fst a = sid) appends)
   \<and> (log sid = None \<longrightarrow> EventLog_replay log sid afterEventId deliver st = st)"
proof -
  let ?evs = "stream_events (log_of appends) sid"
  have ids: "map eventId ?evs = [1..<Suc (length (filter (\<lambda>a. fst a = sid) appends))]"
    by (rule stream_eventIds)
  have "sorted (map eventId ?evs)" unfolding ids by (rule sorted_upt)
  then have a: "EventLog_replay (log_of appends) sid afterEventId deliver st
     = fold deliver (filter (\<lambda>ev. afterEventId < eventId ev) ?evs) st"
    by (rule replay_sorted)
  from ids have "length ?evs = length (filter (\<lambda>a. fst a = sid) appends)"
    by (metis length_map length_upt diff_Suc_1)
  with ids have "map eventId ?evs = [Suc 0..<Suc 0 + length ?evs]" by simp
  then have "filter (\<lambda>ev. afterEventId < eventId ev) ?evs = drop (afterEventId - 0) ?evs"
    by (rule filter_after_is_drop)
  then have b: "filter (\<lambda>ev. afterEventId < eventId ev) ?evs = drop afterEventId ?evs"
    by simp
  have c: "log sid = None \<longrightarrow> EventLog_replay log sid afterEventId deliver st = st"
    by (simp add: EventLog_replay_def)
  from a b ids c show ?thesis by (simp add: stream_payloads)
qed

theorem replay_delivers_events_after_position_witness:
  "log_of [(''a'', JString ''m1''), (''b'', JString ''m2''), (''a'', JString ''m3'')] ''c'' = None
   \<and> EventLog_replay
        (log_of [(''a'', JString ''m1''), (''b'', JString ''m2''), (''a'', JString ''m3'')])
        ''c'' 0 (\<lambda>ev delivered. delivered @ [ev]) [] = []
   \<and> EventLog_replay
        (log_of [(''a'', JString ''m1''), (''b'', JString ''m2''), (''a'', JString ''m3'')])
        ''a'' 1 (\<lambda>ev delivered. delivered @ [ev]) []
       = [\<lparr> streamId = ''a'', eventId = 2, payload = JString ''m3'' \<rparr>]"
proof -
  let ?log = "log_of [(''a'', JString ''m1''), (''b'', JString ''m2''), (''a'', JString ''m3'')]"
  let ?d = "\<lambda>ev delivered. delivered @ [ev :: StreamEvent]"
  have a: "stream_events ?log ''a''
      = [\<lparr> streamId = ''a'', eventId = 1, payload = JString ''m1'' \<rparr>,
         \<lparr> streamId = ''a'', eventId = 2, payload = JString ''m3'' \<rparr>]"
    by (simp add: log_of_def EventLog_append_def stream_events_def next_eventId_def Let_def)
  have n: "?log ''c'' = None"
    by (simp add: log_of_def EventLog_append_def stream_events_def next_eventId_def Let_def)
  note t = replay_delivers_events_after_position
             [of "[(''a'', JString ''m1''), (''b'', JString ''m2''), (''a'', JString ''m3'')]"
                 "''a''" 1 ?d "[]"]
  note u = replay_delivers_events_after_position
             [of "[(''a'', JString ''m1''), (''b'', JString ''m2''), (''a'', JString ''m3'')]"
                 "''c''" 0 ?d "[]" ?log]
  from u n have r0: "EventLog_replay ?log ''c'' 0 ?d [] = []" by blast
  from t have "EventLog_replay ?log ''a'' 1 ?d []
      = fold ?d (filter (\<lambda>ev. 1 < eventId ev) (stream_events ?log ''a'')) []"
    by (rule conjunct1)
  then have r2: "EventLog_replay ?log ''a'' 1 ?d []
      = [\<lparr> streamId = ''a'', eventId = 2, payload = JString ''m3'' \<rparr>]"
    by (simp add: a)
  from n r0 r2 show ?thesis by blast
qed

end
